theory Spec2Isabelle
  imports Main "HOL-Library.Sublist"
begin

section \<open>React elements and the rendered document\<close>

text \<open>
  The widgets of the repository find their neighbours in the rendered document
  (\<open>nextSibling\<close>, \<open>parentNode\<close>, \<open>getElementsByTagName\<close>) and move the keyboard focus
  through the component instance that React recorded as the owner of a node. The model
  therefore has two layers: the elements a caller writes (\<open>element\<close>), and the document
  they are mounted into (\<open>dom\<close>), every node of which remembers the instance that
  rendered it.
\<close>

text \<open>Attributes and props: name and value, as written; a lookup takes the first match.\<close>

type_synonym props = "(string \<times> string) list"

text \<open>A node of the document is addressed by the child indices that lead to it from the
  root of the document; \<open>None\<close> stands for JavaScript's \<open>null\<close>.\<close>

type_synonym path = "nat list"

datatype error = TypeError

text \<open>
  What a caller can write as a child. \<open>TextEl\<close> is a string child; \<open>HostEl\<close> is a tag
  such as \<open><span></span>\<close> or \<open><ol></ol>\<close>, whose \<open>type\<close> is a string; the other three are
  the components of the Tree widget, whose \<open>type\<close> is a function named \<open>TreeItem\<close>, \<open>TreeGroup\<close>
  or \<open>Tree\<close>. Children that are \<open>null\<close> or booleans are outside the model.
\<close>

datatype element =
    TreeItemEl props "element list"
  | TreeGroupEl props "element list"
  | TreeEl props "element list"
  | HostEl string props "element list"
  | TextEl string

text \<open>The fields of a TreeGroup instance: \<open>this.props\<close>, \<open>this.error\<close> (the positions
  \<open>index + 1\<close> of the rejected children; the wording of each message is not modelled),
  \<open>this.expandable\<close> and \<open>this.state.expanded\<close>.\<close>

record TreeGroup =
  props :: props
  error :: "nat list option"
  expandable :: bool
  state_expanded :: bool

text \<open>
  Who rendered a node, which decides what \<open>moveTo\<close> finds under the node's
  \<open>__reactInternalInstance$\<close> key:
  \<^item> \<open>Inert\<close>: a node that \<open>moveTo\<close> passes over: it carries no such key (the
    container, or the text that a tag holds as its only child, which React writes as
    \<open>textContent\<close>), or its owner is an instance without a \<open>focus\<close> method;
  \<^item> \<open>NoOwner\<close>: a node with the key whose \<open>_debugOwner\<close> is \<open>null\<close>: one rendered from
    an element the caller wrote outside any component, as in the repository's tests, or
    a text node among several children;
  \<^item> \<open>TreeItemInst\<close>: the \<open>li\<close> of \<open>TreeItem.render\<close>;
  \<^item> \<open>TreeGroupInst\<close>: the \<open>ol\<close> of \<open>TreeGroup.render\<close>;
  \<^item> \<open>TreeGroupFailed\<close>: the \<open>h1\<close> and \<open>pre\<close> of \<open>TreeGroup.render\<close> when \<open>this.error\<close>
    is set; the instance's \<open>element\<close> is never assigned;
  \<^item> \<open>TreeInst\<close>: the \<open>ol\<close> of the Tree component;
  \<^item> \<open>OtherInst\<close>: a node rendered by a component outside the Tree widget whose
    instance has a \<open>focus\<close> method of its own. In this repository these are Menu (its
    \<open>nav\<close>, \<open>h2\<close> and \<open>ul\<close>), SubMenu, Dialog, Modal and AlertDialog; a caller's component
    can be one too. What that method does when it is called is given with the node
    (\<open>other_focus\<close>).
\<close>

text \<open>
  The \<open>focus\<close> methods of the other components, as far as the tree is concerned:
  \<^item> \<open>TakesFocus\<close>: the method gives the focus to an element of its own component:
    \<open>Menu.focus\<close> to the first link or button of its first item, \<open>SubMenu.focus\<close> to its
    controller button, the \<open>focus\<close> of Dialog, Modal and AlertDialog to the component's
    own element. The focus is then with that component and no longer with the tree;
  \<^item> \<open>LeavesFocus\<close>: the method returns without focusing anything (a Menu without
    items, a SubMenu without its controller, a Dialog, Modal or AlertDialog whose element
    is not set);
  \<^item> \<open>FocusThrows\<close>: the method throws (\<open>Menu.focus\<close> when the first item holds no link
    or button: \<open>target.item(0)\<close> is \<open>null\<close>).
\<close>

datatype other_focus = TakesFocus | LeavesFocus | FocusThrows

datatype owner =
    Inert props
  | NoOwner props
  | TreeItemInst props
  | TreeGroupInst TreeGroup
  | TreeGroupFailed TreeGroup
  | TreeInst props
  | OtherInst props other_focus

datatype dom = Node (tagName: string) (owner: owner) (childNodes: "dom list")

text \<open>The page: the document and \<open>document.activeElement\<close>.\<close>

record world =
  doc :: dom
  activeElement :: path

text \<open>What a handler leaves behind: the page when it returned, or the error it threw
  together with the page at that moment.\<close>

type_synonym outcome = "(error \<times> world) + world"

definition final :: "outcome \<Rightarrow> world" where
  "final r = (case r of Inl (e, w) \<Rightarrow> w | Inr w \<Rightarrow> w)"

subsection \<open>TreeGroup: constructor and render\<close>

text \<open>\<open>typeof type === 'function'\<close> and \<open>type.name\<close> of a child.\<close>

fun type_is_function :: "element \<Rightarrow> bool" where
  "type_is_function (TreeItemEl ps cs) = True"
| "type_is_function (TreeGroupEl ps cs) = True"
| "type_is_function (TreeEl ps cs) = True"
| "type_is_function (HostEl t ps cs) = False"
| "type_is_function (TextEl s) = False"

fun type_name :: "element \<Rightarrow> string" where
  "type_name (TreeItemEl ps cs) = ''TreeItem''"
| "type_name (TreeGroupEl ps cs) = ''TreeGroup''"
| "type_name (TreeEl ps cs) = ''Tree''"
| "type_name (HostEl t ps cs) = []"
| "type_name (TextEl s) = []"

text \<open>The loop \<open>React.Children.forEach(props.children, (child, index) => ...)\<close> of the
  constructor, threading \<open>this.error\<close> and \<open>items\<close>.\<close>

fun forEach_child :: "element list \<Rightarrow> nat \<Rightarrow> nat list option \<times> nat \<Rightarrow> nat list option \<times> nat" where
  "forEach_child [] index acc = acc"
| "forEach_child (child # rest) index (err, items) =
     (if \<not> type_is_function child \<or> type_name child \<noteq> ''TreeItem''
      then forEach_child rest (index + 1)
             (Some ((case err of None \<Rightarrow> [] | Some e \<Rightarrow> e) @ [index + 1]), items)
      else forEach_child rest (index + 1) (err, items + 1))"

definition TreeGroup_constructor :: "props \<Rightarrow> element list \<Rightarrow> TreeGroup" where
  "TreeGroup_constructor ps children =
     (let (err, items) = forEach_child children 0 (None, 0);
          expanded = \<not> (map_of ps ''expanded'' = Some ''false'' \<or> items = 0)
      in \<lparr> props = ps, error = err, expandable = (items > 1), state_expanded = expanded \<rparr>)"

text \<open>The getter \<open>expanded\<close>.\<close>

definition TreeGroup_expanded :: "TreeGroup \<Rightarrow> bool" where
  "TreeGroup_expanded g = state_expanded g"

text \<open>The attributes of the \<open>ol\<close> that \<open>TreeGroup.render\<close> writes: the attributes given
  in the tag override the props spread before them, and \<open>aria-expanded\<close> is put into the
  props only when the group is expandable or expanded.\<close>

definition TreeGroup_attributes :: "TreeGroup \<Rightarrow> props" where
  "TreeGroup_attributes g =
     [(''data-expandable'', if expandable g then ''true'' else ''false''),
      (''role'', ''group''), (''tabindex'', ''0'')]
     @ (if expandable g \<or> TreeGroup_expanded g
        then [(''aria-expanded'', if TreeGroup_expanded g then ''true'' else ''false'')]
        else [])
     @ props g"

definition TreeItem_attributes :: "props \<Rightarrow> props" where
  "TreeItem_attributes ps = [(''role'', ''treeitem''), (''tabindex'', ''0'')] @ ps"

text \<open>Modelled from the spec: the Tree component (Tree/index.jsx) is not among the
  sources. Its tests and the README show that it renders an \<open>ol\<close> with the role \<open>tree\<close>
  and the caller's id, that it accepts TreeItem and TreeGroup children and shows the
  heading "Unable to render tree" for any other child, and that its \<open>focus\<close> method
  focuses its own element. Its expansion state and key handlers are not modelled; no
  function of TreeItem or TreeGroup reads them.\<close>

definition Tree_attributes :: "props \<Rightarrow> props" where
  "Tree_attributes ps = [(''role'', ''tree'')] @ ps"

definition Tree_valid_child :: "element \<Rightarrow> bool" where
  "Tree_valid_child child =
     (type_is_function child \<and> (type_name child = ''TreeItem'' \<or> type_name child = ''TreeGroup''))"

fun attributes :: "dom \<Rightarrow> props" where
  "attributes (Node t (Inert ps) ks) = ps"
| "attributes (Node t (NoOwner ps) ks) = ps"
| "attributes (Node t (TreeItemInst ps) ks) = TreeItem_attributes ps"
| "attributes (Node t (TreeGroupInst g) ks) = TreeGroup_attributes g"
| "attributes (Node t (TreeGroupFailed g) ks) = []"
| "attributes (Node t (TreeInst ps) ks) = Tree_attributes ps"
| "attributes (Node t (OtherInst ps f) ks) = ps"

text \<open>
  Mounting an element: the constructors run and each component renders. A TreeGroup
  whose \<open>error\<close> is set renders a fragment of two nodes and none of its children (the
  text of the \<open>pre\<close>, the joined messages, is left out). Text that is the only child of
  its tag is written as \<open>textContent\<close> (\<open>text_content\<close>); text among other children is a
  node of React's (\<open>text_node\<close>). Tag names are in lower case, as the components write
  them.
\<close>

definition text_node :: "string \<Rightarrow> dom" where
  "text_node s = Node ''#text'' (NoOwner [(''data'', s)]) []"

definition text_content :: "string \<Rightarrow> dom" where
  "text_content s = Node ''#text'' (Inert [(''data'', s)]) []"

fun mount :: "element \<Rightarrow> dom list" where
  "mount (TextEl s) = [text_node s]"
| "mount (HostEl t ps cs) =
     [Node t (NoOwner ps)
        (case cs of [TextEl s] \<Rightarrow> [text_content s] | _ \<Rightarrow> concat (map mount cs))]"
| "mount (TreeItemEl ps cs) =
     [Node ''li'' (TreeItemInst ps)
        (case cs of [TextEl s] \<Rightarrow> [text_content s] | _ \<Rightarrow> concat (map mount cs))]"
| "mount (TreeGroupEl ps cs) =
     (let g = TreeGroup_constructor ps cs in
      if error g \<noteq> None
      then [Node ''h1'' (TreeGroupFailed g) [text_content ''Unable to render tree''],
            Node ''pre'' (TreeGroupFailed g) []]
      else [Node ''ol'' (TreeGroupInst g) (concat (map mount cs))])"
| "mount (TreeEl ps cs) =
     (if list_all Tree_valid_child cs
      then [Node ''ol'' (TreeInst ps) (concat (map mount cs))]
      else [Node ''h1'' (NoOwner []) [text_content ''Unable to render tree'']])"

subsection \<open>Reading the document\<close>

fun lookup :: "dom \<Rightarrow> path \<Rightarrow> dom option" where
  "lookup n [] = Some n"
| "lookup n (i # p) =
     (if i < length (childNodes n) then lookup (childNodes n ! i) p else None)"

definition parentNode :: "path \<Rightarrow> path option" where
  "parentNode p = (if p = [] then None else Some (butlast p))"

definition nextSibling :: "dom \<Rightarrow> path \<Rightarrow> path option" where
  "nextSibling d p =
     (if p = [] then None
      else (case lookup d (butlast p) of
              None \<Rightarrow> None
            | Some n \<Rightarrow> if Suc (last p) < length (childNodes n)
                        then Some (butlast p @ [Suc (last p)]) else None))"

definition previousSibling :: "path \<Rightarrow> path option" where
  "previousSibling p =
     (if p = [] \<or> last p = 0 then None else Some (butlast p @ [last p - 1]))"

definition firstChild :: "dom \<Rightarrow> path \<Rightarrow> path option" where
  "firstChild d p =
     (case lookup d p of
        None \<Rightarrow> None
      | Some n \<Rightarrow> if childNodes n = [] then None else Some (p @ [0]))"

text \<open>All nodes below a node, in document order, each with its path.\<close>

fun descendants :: "dom \<Rightarrow> path \<Rightarrow> (path \<times> dom) list"
  and descendants_from :: "dom list \<Rightarrow> path \<Rightarrow> nat \<Rightarrow> (path \<times> dom) list" where
  "descendants (Node t ow ks) p = descendants_from ks p 0"
| "descendants_from [] p i = []"
| "descendants_from (k # ks) p i =
     (p @ [i], k) # descendants k (p @ [i]) @ descendants_from ks p (Suc i)"

definition getElementsByTagName :: "dom \<Rightarrow> path \<Rightarrow> string \<Rightarrow> path list" where
  "getElementsByTagName d p t =
     (case lookup d p of
        None \<Rightarrow> []
      | Some n \<Rightarrow> map fst (filter (\<lambda>(q, k). tagName k = t) (descendants n p)))"

definition getAttribute :: "dom \<Rightarrow> path \<Rightarrow> string \<Rightarrow> string option" where
  "getAttribute d p a = (case lookup d p of None \<Rightarrow> None | Some n \<Rightarrow> map_of (attributes n) a)"

subsection \<open>moveTo\<close>

text \<open>
  \<open>moveTo(node)\<close> of TreeItem and of TreeGroup (the two are the same text).
  \<open>Object.keys(null)\<close> throws; otherwise the owner found under the React key is asked to
  \<open>focus()\<close>: a TreeItem, a TreeGroup and the Tree focus their element, which is the node
  itself; a node without an owner makes \<open>_debugOwner.stateNode\<close> throw; the instance of
  a failed TreeGroup has no element to focus; an inert node is passed over.

  When the owner is another component with a \<open>focus\<close> method, that method is called.
  If it takes the focus, the focus leaves the tree: \<open>activeElement\<close> is then recorded at
  the node that was handed to \<open>moveTo\<close>, which stands for the component that owns it;
  the element inside that component which ends up focused (for a Menu, the first link of
  its list: \<open>Menu_focus\<close> below) is that component's business and not the tree's.
\<close>

definition moveTo :: "world \<Rightarrow> path option \<Rightarrow> outcome" where
  "moveTo w node =
     (case node of
        None \<Rightarrow> Inl (TypeError, w)
      | Some q \<Rightarrow>
          (case lookup (doc w) q of
             None \<Rightarrow> Inl (TypeError, w)
           | Some n \<Rightarrow>
               (case owner n of
                  Inert ps \<Rightarrow> Inr w
                | NoOwner ps \<Rightarrow> Inl (TypeError, w)
                | TreeItemInst ps \<Rightarrow> Inr (w\<lparr>activeElement := q\<rparr>)
                | TreeGroupInst g \<Rightarrow> Inr (w\<lparr>activeElement := q\<rparr>)
                | TreeGroupFailed g \<Rightarrow> Inl (TypeError, w)
                | TreeInst ps \<Rightarrow> Inr (w\<lparr>activeElement := q\<rparr>)
                | OtherInst ps TakesFocus \<Rightarrow> Inr (w\<lparr>activeElement := q\<rparr>)
                | OtherInst ps LeavesFocus \<Rightarrow> Inr w
                | OtherInst ps FocusThrows \<Rightarrow> Inl (TypeError, w))))"

subsection \<open>TreeItem\<close>

text \<open>\<open>this\<close> is the path of the instance's \<open>li\<close> (\<open>this.element\<close>).\<close>

definition TreeItem_next :: "world \<Rightarrow> path \<Rightarrow> outcome" where
  "TreeItem_next w this =
     (let el = nextSibling (doc w) this;
          subtree = getElementsByTagName (doc w) this ''ol'';
          group = (if subtree \<noteq> []
                   then getAttribute (doc w) (hd subtree) ''role'' = Some ''group'' else False);
          isExpanded = (if subtree \<noteq> []
                   then getAttribute (doc w) (hd subtree) ''aria-expanded'' = Some ''true''
                   else False)
      in if el \<noteq> None \<and> (\<not> group \<or> isExpanded) then moveTo w el
         else if group then moveTo w (Some (hd subtree))
         else (case parentNode this of
                 None \<Rightarrow> Inl (TypeError, w)
               | Some p1 \<Rightarrow>
                   (case parentNode p1 of
                      None \<Rightarrow> Inl (TypeError, w)
                    | Some p2 \<Rightarrow> moveTo w (nextSibling (doc w) p2))))"

definition TreeItem_previous :: "world \<Rightarrow> path \<Rightarrow> outcome" where
  "TreeItem_previous w this =
     (let el = (case previousSibling this of Some q \<Rightarrow> Some q | None \<Rightarrow> parentNode this)
      in moveTo w el)"

definition TreeItem_stepInto :: "world \<Rightarrow> path \<Rightarrow> outcome" where
  "TreeItem_stepInto w this =
     (let el = nextSibling (doc w) this;
          subtree = getElementsByTagName (doc w) this ''ol'';
          group = (if subtree \<noteq> []
                   then getAttribute (doc w) (hd subtree) ''role'' = Some ''group'' else False)
      in if group then moveTo w (Some (hd subtree))
         else if el \<noteq> None then moveTo w el
         else (case parentNode this of
                 None \<Rightarrow> Inl (TypeError, w)
               | Some p1 \<Rightarrow>
                   (case parentNode p1 of
                      None \<Rightarrow> Inl (TypeError, w)
                    | Some p2 \<Rightarrow> moveTo w (nextSibling (doc w) p2))))"

text \<open>The table \<open>this.shortcuts\<close> of the constructor and \<open>onKeyDown\<close>: a key that is not
  in the table does nothing.\<close>

definition TreeItem_shortcuts :: "string \<Rightarrow> (world \<Rightarrow> path \<Rightarrow> outcome) option" where
  "TreeItem_shortcuts key =
     (if key = ''ArrowDown'' then Some TreeItem_next
      else if key = ''ArrowLeft'' then Some TreeItem_previous
      else if key = ''ArrowRight'' then Some TreeItem_stepInto
      else if key = ''ArrowUp'' then Some TreeItem_previous
      else None)"

definition TreeItem_onKeyDown :: "string \<Rightarrow> world \<Rightarrow> path \<Rightarrow> outcome" where
  "TreeItem_onKeyDown key w this =
     (case TreeItem_shortcuts key of None \<Rightarrow> Inr w | Some handler \<Rightarrow> handler w this)"

subsection \<open>TreeGroup\<close>

text \<open>
  \<open>this\<close> is the path of the instance's \<open>ol\<close>. \<open>group_at\<close> reads the instance that
  rendered it, and \<open>setState\<close> is \<open>this.setState({ expanded })\<close> followed by the render
  it causes: the attributes of the \<open>ol\<close> are computed from the instance. React applies the
  new state when the handler ends; no handler reads the state after it has set it, so
  the state is threaded through directly. The methods belong to an instance: at a path
  where no TreeGroup rendered its \<open>ol\<close> they leave the page as it is.
\<close>

definition group_at :: "dom \<Rightarrow> path \<Rightarrow> TreeGroup option" where
  "group_at d p =
     (case lookup d p of
        None \<Rightarrow> None
      | Some n \<Rightarrow> (case owner n of TreeGroupInst g \<Rightarrow> Some g | _ \<Rightarrow> None))"

fun setState :: "dom \<Rightarrow> path \<Rightarrow> bool \<Rightarrow> dom" where
  "setState (Node t ow ks) [] b =
     Node t (case ow of TreeGroupInst g \<Rightarrow> TreeGroupInst (g\<lparr>state_expanded := b\<rparr>) | _ \<Rightarrow> ow) ks"
| "setState (Node t ow ks) (i # p) b =
     Node t ow (if i < length ks then ks[i := setState (ks ! i) p b] else ks)"

definition TreeGroup_collapse :: "world \<Rightarrow> path \<Rightarrow> world" where
  "TreeGroup_collapse w this =
     (case group_at (doc w) this of
        None \<Rightarrow> w
      | Some g \<Rightarrow>
          if expandable g \<and> TreeGroup_expanded g
          then w\<lparr>activeElement := this, doc := setState (doc w) this False\<rparr>
          else w)"

definition TreeGroup_expand :: "world \<Rightarrow> path \<Rightarrow> world" where
  "TreeGroup_expand w this =
     (case group_at (doc w) this of
        None \<Rightarrow> w
      | Some g \<Rightarrow>
          if expandable g \<and> \<not> TreeGroup_expanded g
          then w\<lparr>doc := setState (doc w) this True\<rparr>
          else w)"

definition TreeGroup_next :: "world \<Rightarrow> path \<Rightarrow> outcome" where
  "TreeGroup_next w this =
     (case parentNode this of
        None \<Rightarrow> Inl (TypeError, w)
      | Some p1 \<Rightarrow> moveTo w (nextSibling (doc w) p1))"

definition TreeGroup_previous :: "world \<Rightarrow> path \<Rightarrow> outcome" where
  "TreeGroup_previous w this = moveTo w (parentNode this)"

definition TreeGroup_stepInto :: "world \<Rightarrow> path \<Rightarrow> outcome" where
  "TreeGroup_stepInto w this = moveTo w (firstChild (doc w) this)"

definition TreeGroup_toggle :: "world \<Rightarrow> path \<Rightarrow> world" where
  "TreeGroup_toggle w this =
     (case group_at (doc w) this of
        None \<Rightarrow> w
      | Some g \<Rightarrow>
          if TreeGroup_expanded g then TreeGroup_collapse w this else TreeGroup_expand w this)"

definition TreeGroup_onClick :: "world \<Rightarrow> path \<Rightarrow> world" where
  "TreeGroup_onClick w this = TreeGroup_toggle w this"

definition TreeGroup_shortcuts :: "string \<Rightarrow> (world \<Rightarrow> path \<Rightarrow> outcome) option" where
  "TreeGroup_shortcuts key =
     (if key = ''ArrowDown'' then Some TreeGroup_next
      else if key = ''ArrowLeft'' then Some (\<lambda>w this. Inr (TreeGroup_collapse w this))
      else if key = ''ArrowRight''
        then Some (\<lambda>w this. TreeGroup_stepInto (TreeGroup_expand w this) this)
      else if key = ''ArrowUp'' then Some TreeGroup_previous
      else if key = ''Enter'' then Some (\<lambda>w this. Inr (TreeGroup_toggle w this))
      else None)"

definition TreeGroup_onKeyDown :: "string \<Rightarrow> world \<Rightarrow> path \<Rightarrow> outcome" where
  "TreeGroup_onKeyDown key w this =
     (case TreeGroup_shortcuts key of None \<Rightarrow> Inr w | Some handler \<Rightarrow> handler w this)"

subsection \<open>A key pressed on the focused element\<close>

text \<open>Both handlers stop the propagation of the event, so a key pressed while an \<open>li\<close>
  of a TreeItem or an \<open>ol\<close> of a TreeGroup has the focus is handled by that instance
  alone. Keys pressed on other nodes are not modelled (the handlers of Tree are not among
  the sources); \<open>keydown\<close> is only used with the focus on an item or a group.\<close>

definition keydown :: "string \<Rightarrow> world \<Rightarrow> outcome" where
  "keydown key w =
     (case lookup (doc w) (activeElement w) of
        None \<Rightarrow> Inr w
      | Some n \<Rightarrow>
          (case owner n of
             TreeItemInst ps \<Rightarrow> TreeItem_onKeyDown key w (activeElement w)
           | TreeGroupInst g \<Rightarrow> TreeGroup_onKeyDown key w (activeElement w)
           | _ \<Rightarrow> Inr w))"

text \<open>The kinds of node of the tree the focus can rest on.\<close>

definition is_item :: "dom \<Rightarrow> path \<Rightarrow> bool" where
  "is_item d p =
     (case lookup d p of
        None \<Rightarrow> False
      | Some n \<Rightarrow> (case owner n of TreeItemInst ps \<Rightarrow> True | _ \<Rightarrow> False))"

definition is_group :: "dom \<Rightarrow> path \<Rightarrow> bool" where
  "is_group d p = (group_at d p \<noteq> None)"

definition is_tree_root :: "dom \<Rightarrow> path \<Rightarrow> bool" where
  "is_tree_root d p =
     (case lookup d p of
        None \<Rightarrow> False
      | Some n \<Rightarrow> (case owner n of TreeInst ps \<Rightarrow> True | _ \<Rightarrow> False))"

section \<open>Menu\<close>

text \<open>
  A Menu finds its list by \<open>document.getElementById(this.id)\<close>; its items are the child
  nodes of that list. The functions below are those of the class Menu; the class SubMenu
  has the same \<open>items\<close>, \<open>activeIndex\<close>, \<open>select\<close>, \<open>next\<close> and \<open>prev\<close>, word for word.
  The selector \<open>'a, button'\<close> is the list of these two tag names, and a link or button
  takes the focus when \<open>focus()\<close> is called on it.
\<close>

definition getElementById :: "dom \<Rightarrow> string \<Rightarrow> path option" where
  "getElementById d i =
     (case filter (\<lambda>(q, k). map_of (attributes k) ''id'' = Some i) (([], d) # descendants d []) of
        [] \<Rightarrow> None
      | (q, k) # rest \<Rightarrow> Some q)"

definition querySelectorAll :: "dom \<Rightarrow> path \<Rightarrow> string list \<Rightarrow> path list" where
  "querySelectorAll d p tags =
     (case lookup d p of
        None \<Rightarrow> []
      | Some n \<Rightarrow> map fst (filter (\<lambda>(q, k). tagName k \<in> set tags) (descendants n p)))"

text \<open>\<open>node.contains(other)\<close>: the node itself or one of its descendants.\<close>

definition contains :: "path \<Rightarrow> path \<Rightarrow> bool" where
  "contains q f = prefix q f"

definition Menu_items :: "dom \<Rightarrow> string \<Rightarrow> path list" where
  "Menu_items d i =
     (case getElementById d i of
        None \<Rightarrow> []
      | Some p \<Rightarrow>
          (case lookup d p of
             None \<Rightarrow> []
           | Some n \<Rightarrow> map (\<lambda>j. p @ [j]) [0..<length (childNodes n)]))"

text \<open>The loop of the getter \<open>activeIndex\<close>, counting \<open>i\<close> down from \<open>list.length - 1\<close>; the
  third argument is \<open>i + 1\<close>, and \<open>None\<close> is the \<open>undefined\<close> the getter returns when the
  loop ends.\<close>

fun activeIndex_loop :: "path list \<Rightarrow> path \<Rightarrow> nat \<Rightarrow> nat option" where
  "activeIndex_loop list f 0 = None"
| "activeIndex_loop list f (Suc i) =
     (if contains (list ! i) f then Some i else activeIndex_loop list f i)"

definition Menu_activeIndex :: "world \<Rightarrow> string \<Rightarrow> nat option" where
  "Menu_activeIndex w i =
     (let list = Menu_items (doc w) i in activeIndex_loop list (activeElement w) (length list))"

text \<open>\<open>select(ndx)\<close>: \<open>this.items[i]\<close> is \<open>undefined\<close> when the menu is empty, and
  \<open>content.item(0)\<close> is \<open>null\<close> when the item holds no link or button; both throw.\<close>

definition Menu_select :: "world \<Rightarrow> string \<Rightarrow> int \<Rightarrow> outcome" where
  "Menu_select w i ndx =
     (let items = Menu_items (doc w) i;
          lastIndex = int (length items) - 1;
          j = (if ndx < 0 then lastIndex else if ndx > lastIndex then 0 else ndx)
      in if j < 0 \<or> int (length items) \<le> j then Inl (TypeError, w)
         else (case querySelectorAll (doc w) (items ! nat j) [''a'', ''button''] of
                 [] \<Rightarrow> Inl (TypeError, w)
               | t # ts \<Rightarrow> Inr (w\<lparr>activeElement := t\<rparr>)))"

text \<open>\<open>first()\<close> and \<open>focus()\<close> of Menu: the first link or button of the first item takes
  the focus; nothing happens in a menu without items, and \<open>target.item(0)\<close> is \<open>null\<close>
  when the first item holds no link or button.\<close>

definition Menu_first :: "world \<Rightarrow> string \<Rightarrow> outcome" where
  "Menu_first w i =
     (let items = Menu_items (doc w) i
      in if items \<noteq> []
         then (case querySelectorAll (doc w) (items ! 0) [''a'', ''button''] of
                 [] \<Rightarrow> Inl (TypeError, w)
               | t # ts \<Rightarrow> Inr (w\<lparr>activeElement := t\<rparr>))
         else Inr w)"

definition Menu_focus :: "world \<Rightarrow> string \<Rightarrow> outcome" where
  "Menu_focus w i = Menu_first w i"

definition Menu_next :: "world \<Rightarrow> string \<Rightarrow> outcome" where
  "Menu_next w i =
     (case Menu_activeIndex w i of None \<Rightarrow> Inr w | Some a \<Rightarrow> Menu_select w i (int a + 1))"

definition Menu_prev :: "world \<Rightarrow> string \<Rightarrow> outcome" where
  "Menu_prev w i =
     (case Menu_activeIndex w i of None \<Rightarrow> Inr w | Some a \<Rightarrow> Menu_select w i (int a - 1))"

section \<open>The documents of the repository's tests and examples\<close>

text \<open>The tree that the tests of TreeItem and TreeGroup mount, in a container.\<close>

definition leaf :: "string \<Rightarrow> string \<Rightarrow> element" where
  "leaf i label = TreeItemEl [(''id'', i)] [HostEl ''span'' [] [TextEl label]]"

definition branch :: "string \<Rightarrow> string \<Rightarrow> props \<Rightarrow> element list \<Rightarrow> element" where
  "branch i label ps cs =
     TreeItemEl [(''id'', i)] [HostEl ''span'' [] [TextEl label], TreeGroupEl ps cs]"

definition test_tree :: element where
  "test_tree =
     TreeEl [(''id'', ''tree'')]
       [branch ''ti1'' ''Branch 1'' [(''expanded'', ''true'')]
          [branch ''tg1-ti1'' ''Submenu 1 : Branch 1'' []
             [leaf ''tg1-ti1-tg1-ti1'' ''Submenu 1 : Submenu 1 : Branch 1'',
              branch ''tg1-ti1-tg1-ti2'' ''Submenu 1 : Submenu 1 : Branch 2'' []
                [leaf ''tg1-ti1-tg1-ti2-tg1-ti1'' ''Submenu 1 : Submenu 1 : Branch 2 : Submenu 1'']],
           branch ''tg1-ti2'' ''Submenu 1: Branch 2''
             [(''expanded'', ''false''), (''id'', ''tg1-ti2-tg1'')]
             [leaf ''tg1-ti2-tg1-ti1'' ''Submenu 1 : Branch 2 : Submenu 1 : Branch 1'',
              branch ''tg1-ti2-tg1-ti2'' ''Submenu 1 : Branch 2 : Submenu 1 : Branch 2'' []
                [leaf ''tg1-ti2-tg1-ti2-tg1-ti1''
                   ''Submenu 1 : Branch 2 : Submenu 1 : Branch 2 : Submenu 1 : Branch 1'']],
           leaf ''tg1-ti3'' ''Submenu 1 : Branch 3'',
           leaf ''tg1-ti4'' ''Submenu 1 : Branch 4''],
        leaf ''ti2'' ''Branch 2'']"

definition test_doc :: dom where
  "test_doc = Node ''div'' (Inert []) (mount test_tree)"

text \<open>The paths of the nodes of \<open>test_doc\<close> that the tests name by id.\<close>

definition tree_root :: path where "tree_root = [0]"
definition ti1 :: path where "ti1 = [0, 0]"
definition ti1_group :: path where "ti1_group = [0, 0, 1]"
definition ti2 :: path where "ti2 = [0, 1]"
definition tg1_ti1 :: path where "tg1_ti1 = [0, 0, 1, 0]"
definition tg1_ti1_group :: path where "tg1_ti1_group = [0, 0, 1, 0, 1]"
definition tg1_ti1_tg1_ti1 :: path where "tg1_ti1_tg1_ti1 = [0, 0, 1, 0, 1, 0]"
definition tg1_ti2 :: path where "tg1_ti2 = [0, 0, 1, 1]"
definition tg1_ti2_tg1 :: path where "tg1_ti2_tg1 = [0, 0, 1, 1, 1]"
definition tg1_ti2_tg1_ti1 :: path where "tg1_ti2_tg1_ti1 = [0, 0, 1, 1, 1, 0]"
definition tg1_ti3 :: path where "tg1_ti3 = [0, 0, 1, 2]"
definition tg1_ti4 :: path where "tg1_ti4 = [0, 0, 1, 3]"
definition tg1_ti1_tg1_ti2 :: path where "tg1_ti1_tg1_ti2 = [0, 0, 1, 0, 1, 1]"
definition tg1_ti1_tg1_ti2_group :: path where "tg1_ti1_tg1_ti2_group = [0, 0, 1, 0, 1, 1, 1]"
definition tg1_ti1_tg1_ti2_tg1_ti1 :: path where
  "tg1_ti1_tg1_ti2_tg1_ti1 = [0, 0, 1, 0, 1, 1, 1, 0]"

text \<open>A tree of two root items A and B, where A owns a group of A1 and A2, and A2, the
  last item of that group, owns a group of two items that the caller collapsed.\<close>

definition small_tree :: element where
  "small_tree =
     TreeEl [(''id'', ''t'')]
       [branch ''A'' ''A'' []
          [leaf ''A1'' ''A1'',
           branch ''A2'' ''A2'' [(''expanded'', ''false'')]
             [leaf ''A2a'' ''A2a'', leaf ''A2b'' ''A2b'']],
        leaf ''B'' ''B'']"

definition small_doc :: dom where
  "small_doc = Node ''div'' (Inert []) (mount small_tree)"


definition small_focused_on :: "path \<Rightarrow> world" where
  "small_focused_on p = \<lparr>doc = small_doc, activeElement = p\<rparr>"

text \<open>The flat menu of the README (three items in a list with the role \<open>menu\<close>), as
  rendered into a container. The functions of Menu find nodes by id, tag and position
  only and never ask for the owner of a node, so the nodes are written without one.\<close>

definition menu_doc :: dom where
  "menu_doc =
     Node ''div'' (Inert [])
       [Node ''h2'' (NoOwner [(''id'', ''spacebears-label'')]) [text_content ''Space Bears Menu''],
        Node ''ul''
          (NoOwner [(''aria-labelledby'', ''spacebears-label''), (''class'', ''menu''),
                    (''id'', ''spacebears''), (''role'', ''menu'')])
          [Node ''li'' (NoOwner [(''role'', ''menuitem'')])
             [Node ''button'' (NoOwner [(''type'', ''button'')]) [text_content ''Use full screen'']],
           Node ''li'' (NoOwner [(''role'', ''menuitem'')])
             [Node ''a'' (NoOwner [(''href'', ''/spacebear1'')]) [text_content ''Space Bear 1'']],
           Node ''li'' (NoOwner [(''role'', ''menuitem'')])
             [Node ''a'' (NoOwner [(''href'', ''/spacebear2'')]) [text_content ''Space Bear 2'']]]]"

text \<open>The menu document with the focus on a given node.\<close>

definition menu_focused_on :: "path \<Rightarrow> world" where
  "menu_focused_on p = \<lparr>doc = menu_doc, activeElement = p\<rparr>"

text \<open>A tree of one item in a container of its own, and beside that container a Menu
  of one item, which renders a \<open>nav\<close> holding its heading and its list.\<close>

definition beside_doc :: dom where
  "beside_doc =
     Node ''div'' (Inert [])
       [Node ''div'' (NoOwner []) (mount (TreeEl [(''id'', ''tree'')] [leaf ''a'' ''A''])),
        Node ''nav'' (OtherInst [(''aria-labelledby'', ''m-label'')] TakesFocus)
          [Node ''h2'' (OtherInst [(''id'', ''m-label'')] TakesFocus) [text_content ''Menu''],
           Node ''ul'' (OtherInst [(''class'', ''menu''), (''id'', ''m'')] TakesFocus)
             [Node ''li'' (NoOwner [(''role'', ''menuitem'')])
                [Node ''a'' (NoOwner [(''href'', ''/one'')]) [text_content ''One'']]]]]"

definition beside_item :: path where "beside_item = [0, 0, 0]"
definition beside_nav :: path where "beside_nav = [1]"
definition beside_link :: path where "beside_link = [1, 1, 0, 0]"

definition beside_focused_on :: "path \<Rightarrow> world" where
  "beside_focused_on p = \<lparr>doc = beside_doc, activeElement = p\<rparr>"

section \<open>Notions used to state the properties\<close>

text \<open>A child whose \<open>type\<close> passes the test of the TreeGroup constructor.\<close>

definition is_TreeItem :: "element \<Rightarrow> bool" where
  "is_TreeItem child = (type_is_function child \<and> type_name child = ''TreeItem'')"

text \<open>What the getter \<open>expanded\<close> of the TreeGroup at a path reports.\<close>

definition expanded_at :: "world \<Rightarrow> path \<Rightarrow> bool option" where
  "expanded_at w p = map_option TreeGroup_expanded (group_at (doc w) p)"

text \<open>The test document with the focus on a given node.\<close>

definition focused_on :: "path \<Rightarrow> world" where
  "focused_on p = \<lparr>doc = test_doc, activeElement = p\<rparr>"

text \<open>Two of the TreeGroup instances of the test document: the group of one item under
  \<open>tg1-ti1-tg1-ti2\<close>, and the group of four items under \<open>ti1\<close>.\<close>

definition single_item_group :: TreeGroup where
  "single_item_group = \<lparr>props = [], error = None, expandable = False, state_expanded = True\<rparr>"

definition ti1_group_instance :: TreeGroup where
  "ti1_group_instance =
     \<lparr>props = [(''expanded'', ''true'')], error = None, expandable = True, state_expanded = True\<rparr>"

text \<open>The nodes of the tree that \<open>moveTo\<close> can give the focus to: the element of a
  TreeItem, of a TreeGroup or of the Tree.\<close>

definition focusable :: "dom \<Rightarrow> path \<Rightarrow> bool" where
  "focusable d q = (is_item d q \<or> is_group d q \<or> is_tree_root d q)"

text \<open>A node of another component whose \<open>focus\<close> method takes the focus, and the paths
  that lead to such a node: with \<open>activeElement\<close> there, the focus has left the tree.\<close>

definition other_takes :: "dom \<Rightarrow> bool" where
  "other_takes n = (case owner n of OtherInst ps f \<Rightarrow> f = TakesFocus | _ \<Rightarrow> False)"

definition taken_by_other :: "dom \<Rightarrow> path \<Rightarrow> bool" where
  "taken_by_other d q = (case lookup d q of None \<Rightarrow> False | Some n \<Rightarrow> other_takes n)"

text \<open>The focus is on an element of the tree, or another component has taken it.\<close>

definition on_tree_or_taken :: "world \<Rightarrow> bool" where
  "on_tree_or_taken w =
     (focusable (doc w) (activeElement w) \<or> taken_by_other (doc w) (activeElement w))"

text \<open>A document in which no node belongs to such a component.\<close>

definition tree_alone :: "dom \<Rightarrow> bool" where
  "tree_alone d = list_all (\<lambda>(q, k). \<not> other_takes k) (([], d) # descendants d [])"

text \<open>The child group that \<open>next\<close> and \<open>stepInto\<close> see below an item: the first \<open>ol\<close>
  under the \<open>li\<close>, when its role is \<open>group\<close> (their \<open>subtree.item(0)\<close> and \<open>group\<close>).\<close>

definition child_group :: "dom \<Rightarrow> path \<Rightarrow> path option" where
  "child_group d p =
     (case getElementsByTagName d p ''ol'' of
        [] \<Rightarrow> None
      | q # qs \<Rightarrow> if getAttribute d q ''role'' = Some ''group'' then Some q else None)"

text \<open>Their \<open>isExpanded\<close>: the \<open>aria-expanded\<close> attribute of that \<open>ol\<close> is \<open>'true'\<close>. For the
  \<open>ol\<close> of a TreeGroup this is what the getter \<open>expanded\<close> reports, unless the group is
  neither expandable nor expanded and the caller passed an \<open>aria-expanded\<close> of its own
  (lemma \<open>isExpanded_group\<close>).\<close>

definition isExpanded :: "dom \<Rightarrow> path \<Rightarrow> bool" where
  "isExpanded d q = (getAttribute d q ''aria-expanded'' = Some ''true'')"

text \<open>\<open>this.element.parentNode.parentNode\<close>: for an item inside a group, the item that
  owns the group.\<close>

definition owning_item :: "path \<Rightarrow> path option" where
  "owning_item p = (case parentNode p of None \<Rightarrow> None | Some p1 \<Rightarrow> parentNode p1)"

text \<open>A valid group whose only item holds a group with two raw \<open>li\<close> children (the
  malformed group of the repository's test, one level down).\<close>

definition nested_malformed :: element where
  "nested_malformed =
     TreeGroupEl []
       [TreeItemEl [(''id'', ''a'')]
          [HostEl ''span'' [] [TextEl ''A''],
           TreeGroupEl [] [HostEl ''li'' [] [TextEl ''Branch 1''], HostEl ''li'' [] [TextEl ''Branch 2'']]]]"

text \<open>The instance the constructor builds for that inner group.\<close>

definition rejected_group :: TreeGroup where
  "rejected_group = \<lparr>props = [], error = Some [1, 2], expandable = False, state_expanded = False\<rparr>"

section \<open>Properties of the document functions\<close>

lemma lookup_setState:
  "lookup (setState d p b) q =
     (case lookup d q of
        None \<Rightarrow> None
      | Some n \<Rightarrow> Some (if prefix q p then setState n (drop (length q) p) b else n))"
proof (induction q arbitrary: d p)
  case Nil
  show ?case by simp
next
  case (Cons j q)
  obtain t ow ks where d: "d = Node t ow ks" by (cases d)
  show ?case
  proof (cases p)
    case Nil
    then show ?thesis by (simp add: d split: option.splits)
  next
    case (Cons i p')
    show ?thesis
    proof (cases "i = j")
      case True
      then show ?thesis using Cons.IH [of "ks ! j" p'] by (simp add: d Cons split: option.splits)
    next
      case False
      then show ?thesis by (simp add: d Cons split: option.splits)
    qed
  qed
qed

lemma group_at_setState_same:
  "group_at d p = Some g \<Longrightarrow> group_at (setState d p b) p = Some (g\<lparr>state_expanded := b\<rparr>)"
  by (cases "lookup d p"; cases "the (lookup d p)")
     (auto simp: group_at_def lookup_setState split: option.splits owner.splits)

lemma forEach_child_items:
  "snd (forEach_child cs i (err, n)) = n + length (filter is_TreeItem cs)"
  by (induction cs arbitrary: i err n) (auto simp: is_TreeItem_def)

lemma forEach_child_error:
  "(fst (forEach_child cs i (err, n)) = None) = (err = None \<and> list_all is_TreeItem cs)"
  by (induction cs arbitrary: i err n) (auto simp: is_TreeItem_def)

lemma expandable_constructor: "expandable (TreeGroup_constructor ps cs) = (2 \<le> length (filter is_TreeItem cs))"
  using forEach_child_items [of cs 0 None 0]
  by (auto simp: TreeGroup_constructor_def split: prod.splits)

lemma toggle_nonexp:  "group_at (doc w) this = Some g \<Longrightarrow> \<not> expandable g \<Longrightarrow>
   TreeGroup_toggle w this = w \<and> TreeGroup_expand w this = w \<and> TreeGroup_collapse w this = w"
  by (simp add: TreeGroup_toggle_def TreeGroup_expand_def TreeGroup_collapse_def)

lemma toggle_exp: "group_at (doc w) this = Some g \<Longrightarrow> expandable g \<Longrightarrow> 
  expanded_at (TreeGroup_toggle w this) this = Some (\<not> TreeGroup_expanded g)
  \<and> map_option expandable (group_at (doc (TreeGroup_toggle w this)) this) = Some True"
  by (simp add: TreeGroup_toggle_def TreeGroup_expand_def TreeGroup_collapse_def expanded_at_def group_at_setState_same TreeGroup_expanded_def)



lemma error_constructor:
  "(error (TreeGroup_constructor ps cs) = None) = list_all is_TreeItem cs"
  using forEach_child_error [of cs 0 None 0]
  by (auto simp: TreeGroup_constructor_def split: prod.splits)

lemma expanded_constructor:
  "TreeGroup_expanded (TreeGroup_constructor ps cs) =
     (map_of ps ''expanded'' \<noteq> Some ''false'' \<and> length (filter is_TreeItem cs) \<noteq> 0)"
  using forEach_child_items [of cs 0 None 0]
  by (auto simp: TreeGroup_constructor_def TreeGroup_expanded_def split: prod.splits)

lemma props_constructor: "props (TreeGroup_constructor ps cs) = ps"
  by (simp add: TreeGroup_constructor_def split: prod.splits)

lemma aria_expanded_attribute:
  "map_of (TreeGroup_attributes g) ''aria-expanded'' =
     (if expandable g \<or> TreeGroup_expanded g
      then Some (if TreeGroup_expanded g then ''true'' else ''false'')
      else map_of (props g) ''aria-expanded'')"
  by (simp add: TreeGroup_attributes_def)

lemma moveTo_focusable:
  "focusable (doc w) q \<Longrightarrow> moveTo w (Some q) = Inr (w\<lparr>activeElement := q\<rparr>)"
  by (auto simp: focusable_def is_item_def is_group_def is_tree_root_def group_at_def moveTo_def
      split: option.splits owner.splits)

lemma moveTo_keeps_doc: "doc (final (moveTo w t)) = doc w"
  by (simp add: moveTo_def final_def split: option.splits owner.splits other_focus.splits)

lemma moveTo_result:
  "final (moveTo w t) = w
   \<or> (\<exists>q. final (moveTo w t) = w\<lparr>activeElement := q\<rparr>
           \<and> (focusable (doc w) q \<or> taken_by_other (doc w) q))"
  by (auto simp: focusable_def is_item_def is_group_def is_tree_root_def group_at_def
      taken_by_other_def other_takes_def moveTo_def final_def
      split: option.splits owner.splits other_focus.splits)

lemma moveTo_keeps_on_tree_or_taken:
  "on_tree_or_taken w \<Longrightarrow> on_tree_or_taken (final (moveTo w t))"
  using moveTo_result [of w t] by (auto simp: on_tree_or_taken_def)

lemma group_role:
  "is_group d q \<Longrightarrow> getAttribute d q ''role'' = Some ''group''"
  by (cases "lookup d q"; cases "the (lookup d q)")
     (auto simp: is_group_def group_at_def getAttribute_def TreeGroup_attributes_def
       split: option.splits owner.splits)

lemma isExpanded_group:
  "group_at d q = Some g \<Longrightarrow>
     isExpanded d q =
       (if expandable g \<or> TreeGroup_expanded g then TreeGroup_expanded g
        else map_of (props g) ''aria-expanded'' = Some ''true'')"
  by (cases "lookup d q"; cases "the (lookup d q)")
     (auto simp: group_at_def getAttribute_def isExpanded_def aria_expanded_attribute
       split: option.splits owner.splits)

lemma TreeItem_next_cases:
  "TreeItem_next w p =
     (if nextSibling (doc w) p \<noteq> None
         \<and> (child_group (doc w) p = None \<or> isExpanded (doc w) (the (child_group (doc w) p)))
      then moveTo w (nextSibling (doc w) p)
      else if child_group (doc w) p \<noteq> None then moveTo w (child_group (doc w) p)
      else (case owning_item p of
              None \<Rightarrow> Inl (TypeError, w)
            | Some p2 \<Rightarrow> moveTo w (nextSibling (doc w) p2)))"
  by (auto simp: TreeItem_next_def child_group_def isExpanded_def owning_item_def Let_def
      split: list.splits option.splits)

lemma TreeItem_stepInto_cases:
  "TreeItem_stepInto w p =
     (if child_group (doc w) p \<noteq> None then moveTo w (child_group (doc w) p)
      else if nextSibling (doc w) p \<noteq> None then moveTo w (nextSibling (doc w) p)
      else (case owning_item p of
              None \<Rightarrow> Inl (TypeError, w)
            | Some p2 \<Rightarrow> moveTo w (nextSibling (doc w) p2)))"
  by (auto simp: TreeItem_stepInto_def child_group_def owning_item_def Let_def
      split: list.splits option.splits)

lemma setState_kind:
  "(case owner (setState n r b) of TreeItemInst ps \<Rightarrow> True | _ \<Rightarrow> False)
     = (case owner n of TreeItemInst ps \<Rightarrow> True | _ \<Rightarrow> False)"
  "(case owner (setState n r b) of TreeGroupInst g \<Rightarrow> True | _ \<Rightarrow> False)
     = (case owner n of TreeGroupInst g \<Rightarrow> True | _ \<Rightarrow> False)"
  "(case owner (setState n r b) of TreeInst ps \<Rightarrow> True | _ \<Rightarrow> False)
     = (case owner n of TreeInst ps \<Rightarrow> True | _ \<Rightarrow> False)"
  "(childNodes (setState n r b) = []) = (childNodes n = [])"
  by (cases n; cases r; simp split: owner.splits)+

lemma focusable_setState: "focusable (setState d p b) q = focusable d q"
proof (cases "lookup d q")
  case None
  then show ?thesis
    by (simp add: focusable_def is_item_def is_group_def is_tree_root_def group_at_def
        lookup_setState)
next
  case (Some n)
  have i: "is_item (setState d p b) q = is_item d q"
    using setState_kind(1) [of n "drop (length q) p" b]
    by (simp add: is_item_def lookup_setState Some)
  have g: "is_group (setState d p b) q = is_group d q"
    using setState_kind(2) [of n "drop (length q) p" b]
    by (simp add: is_group_def group_at_def lookup_setState Some split: owner.splits)
  have r: "is_tree_root (setState d p b) q = is_tree_root d q"
    using setState_kind(3) [of n "drop (length q) p" b]
    by (simp add: is_tree_root_def lookup_setState Some)
  show ?thesis by (simp add: focusable_def i g r)
qed

lemma firstChild_setState: "firstChild (setState d p b) q = firstChild d q"
  using setState_kind(4)
  by (cases "lookup d q") (simp_all add: firstChild_def lookup_setState)

lemma expand_effect:
  "group_at (doc w) q = Some g \<Longrightarrow>
     expanded_at (TreeGroup_expand w q) q = Some (expandable g \<or> TreeGroup_expanded g)
     \<and> activeElement (TreeGroup_expand w q) = activeElement w"
  by (auto simp: TreeGroup_expand_def expanded_at_def group_at_setState_same TreeGroup_expanded_def)

lemma expand_keeps:
  "focusable (doc (TreeGroup_expand w q)) c = focusable (doc w) c"
  "firstChild (doc (TreeGroup_expand w q)) c = firstChild (doc w) c"
  by (simp_all add: TreeGroup_expand_def focusable_setState firstChild_setState split: option.splits)

lemma TreeItem_keys:
  "TreeItem_onKeyDown ''ArrowDown'' w p = TreeItem_next w p"
  "TreeItem_onKeyDown ''ArrowLeft'' w p = TreeItem_previous w p"
  "TreeItem_onKeyDown ''ArrowRight'' w p = TreeItem_stepInto w p"
  "TreeItem_onKeyDown ''ArrowUp'' w p = TreeItem_previous w p"
  by (simp_all add: TreeItem_onKeyDown_def TreeItem_shortcuts_def)

lemma TreeGroup_keys:
  "TreeGroup_onKeyDown ''ArrowDown'' w q = TreeGroup_next w q"
  "TreeGroup_onKeyDown ''ArrowLeft'' w q = Inr (TreeGroup_collapse w q)"
  "TreeGroup_onKeyDown ''ArrowRight'' w q = TreeGroup_stepInto (TreeGroup_expand w q) q"
  "TreeGroup_onKeyDown ''ArrowUp'' w q = TreeGroup_previous w q"
  "TreeGroup_onKeyDown ''Enter'' w q = Inr (TreeGroup_toggle w q)"
  by (simp_all add: TreeGroup_onKeyDown_def TreeGroup_shortcuts_def)

lemma other_takes_setState: "other_takes (setState n r b) = other_takes n"
  by (cases n; cases r; simp add: other_takes_def split: owner.splits)

lemma taken_by_other_setState: "taken_by_other (setState d p b) q = taken_by_other d q"
  by (cases "lookup d q") (simp_all add: taken_by_other_def lookup_setState other_takes_setState)

lemma TreeItem_keeps_on_tree_or_taken:
  assumes "on_tree_or_taken w"
  shows "on_tree_or_taken (final (TreeItem_onKeyDown key w p))"
proof -
  have m: "\<And>t. on_tree_or_taken (final (moveTo w t))"
    using assms by (rule moveTo_keeps_on_tree_or_taken)
  have e: "on_tree_or_taken (final (Inl (TypeError, w)))" "on_tree_or_taken (final (Inr w))"
    using assms by (simp_all add: final_def)
  have n: "on_tree_or_taken (final (TreeItem_next w p))"
    using m e by (simp add: TreeItem_next_cases split: option.splits)
  have s: "on_tree_or_taken (final (TreeItem_stepInto w p))"
    using m e by (simp add: TreeItem_stepInto_cases split: option.splits)
  have v: "on_tree_or_taken (final (TreeItem_previous w p))"
    using m by (simp add: TreeItem_previous_def)
  show ?thesis
    using n s v e by (simp add: TreeItem_onKeyDown_def TreeItem_shortcuts_def)
qed

lemma collapse_keeps_on_tree_or_taken:
  assumes "on_tree_or_taken w"
  shows "on_tree_or_taken (TreeGroup_collapse w q)"
proof (cases "group_at (doc w) q")
  case None
  with assms show ?thesis by (simp add: TreeGroup_collapse_def)
next
  case (Some g)
  then have "focusable (doc w) q" by (simp add: focusable_def is_group_def)
  with assms Some show ?thesis
    by (simp add: TreeGroup_collapse_def on_tree_or_taken_def focusable_setState)
qed

lemma expand_keeps_on_tree_or_taken:
  assumes "on_tree_or_taken w"
  shows "on_tree_or_taken (TreeGroup_expand w q)"
  using assms
  by (simp add: TreeGroup_expand_def on_tree_or_taken_def focusable_setState
      taken_by_other_setState split: option.splits)

lemma toggle_keeps_on_tree_or_taken:
  assumes "on_tree_or_taken w"
  shows "on_tree_or_taken (TreeGroup_toggle w q)"
  using collapse_keeps_on_tree_or_taken [OF assms] expand_keeps_on_tree_or_taken [OF assms] assms
  by (simp add: TreeGroup_toggle_def split: option.splits)

lemma TreeGroup_keeps_on_tree_or_taken:
  assumes "on_tree_or_taken w"
  shows "on_tree_or_taken (final (TreeGroup_onKeyDown key w q))"
proof -
  have m: "\<And>t. on_tree_or_taken (final (moveTo w t))"
    using assms by (rule moveTo_keeps_on_tree_or_taken)
  have e: "on_tree_or_taken (final (Inl (TypeError, w)))" "on_tree_or_taken (final (Inr w))"
    using assms by (simp_all add: final_def)
  have n: "on_tree_or_taken (final (TreeGroup_next w q))"
    using m e by (simp add: TreeGroup_next_def split: option.splits)
  have v: "on_tree_or_taken (final (TreeGroup_previous w q))"
    using m by (simp add: TreeGroup_previous_def)
  have c: "on_tree_or_taken (final (Inr (TreeGroup_collapse w q)))"
    using collapse_keeps_on_tree_or_taken [OF assms] by (simp add: final_def)
  have t: "on_tree_or_taken (final (Inr (TreeGroup_toggle w q)))"
    using toggle_keeps_on_tree_or_taken [OF assms] by (simp add: final_def)
  have s: "on_tree_or_taken (final (TreeGroup_stepInto (TreeGroup_expand w q) q))"
    using moveTo_keeps_on_tree_or_taken [OF expand_keeps_on_tree_or_taken [OF assms]]
    by (simp add: TreeGroup_stepInto_def)
  show ?thesis
    using n v c t s e by (simp add: TreeGroup_onKeyDown_def TreeGroup_shortcuts_def)
qed

lemma keydown_keeps_on_tree_or_taken:
  assumes "on_tree_or_taken w"
  shows "on_tree_or_taken (final (keydown key w))"
proof -
  have e: "on_tree_or_taken (final (Inr w))"
    using assms by (simp add: final_def)
  show ?thesis
    using TreeItem_keeps_on_tree_or_taken [OF assms] TreeGroup_keeps_on_tree_or_taken [OF assms] e
    by (simp add: keydown_def split: option.splits owner.splits)
qed

text \<open>The handlers change the document by \<open>setState\<close> alone, which leaves the nodes of
  other components as they are.\<close>

lemma TreeItem_keeps_doc: "doc (final (TreeItem_onKeyDown key w p)) = doc w"
proof -
  have e: "doc (final (Inl (TypeError, w))) = doc w" "doc (final (Inr w)) = doc w"
    by (simp_all add: final_def)
  have n: "doc (final (TreeItem_next w p)) = doc w"
    using e by (simp add: TreeItem_next_cases moveTo_keeps_doc split: option.splits)
  have s: "doc (final (TreeItem_stepInto w p)) = doc w"
    using e by (simp add: TreeItem_stepInto_cases moveTo_keeps_doc split: option.splits)
  have v: "doc (final (TreeItem_previous w p)) = doc w"
    by (simp add: TreeItem_previous_def moveTo_keeps_doc)
  show ?thesis
    using n s v e by (simp add: TreeItem_onKeyDown_def TreeItem_shortcuts_def)
qed

lemma collapse_keeps_takers:
  "taken_by_other (doc (TreeGroup_collapse w q)) c = taken_by_other (doc w) c"
  by (simp add: TreeGroup_collapse_def taken_by_other_setState split: option.splits)

lemma expand_keeps_takers:
  "taken_by_other (doc (TreeGroup_expand w q)) c = taken_by_other (doc w) c"
  by (simp add: TreeGroup_expand_def taken_by_other_setState split: option.splits)

lemma toggle_keeps_takers:
  "taken_by_other (doc (TreeGroup_toggle w q)) c = taken_by_other (doc w) c"
  by (simp add: TreeGroup_toggle_def collapse_keeps_takers expand_keeps_takers
      split: option.splits)

lemma TreeGroup_keeps_takers:
  "taken_by_other (doc (final (TreeGroup_onKeyDown key w q))) c = taken_by_other (doc w) c"
proof -
  have e: "doc (final (Inl (TypeError, w))) = doc w" "doc (final (Inr w)) = doc w"
    by (simp_all add: final_def)
  have n: "doc (final (TreeGroup_next w q)) = doc w"
    using e by (simp add: TreeGroup_next_def moveTo_keeps_doc split: option.splits)
  have v: "doc (final (TreeGroup_previous w q)) = doc w"
    by (simp add: TreeGroup_previous_def moveTo_keeps_doc)
  have c: "taken_by_other (doc (final (Inr (TreeGroup_collapse w q)))) c = taken_by_other (doc w) c"
    by (simp add: final_def collapse_keeps_takers)
  have t: "taken_by_other (doc (final (Inr (TreeGroup_toggle w q)))) c = taken_by_other (doc w) c"
    by (simp add: final_def toggle_keeps_takers)
  have s: "taken_by_other (doc (final (TreeGroup_stepInto (TreeGroup_expand w q) q))) c
      = taken_by_other (doc w) c"
    by (simp add: TreeGroup_stepInto_def moveTo_keeps_doc expand_keeps_takers)
  show ?thesis
    using n v c t s e by (simp add: TreeGroup_onKeyDown_def TreeGroup_shortcuts_def)
qed

lemma keydown_keeps_takers:
  "taken_by_other (doc (final (keydown key w))) c = taken_by_other (doc w) c"
proof -
  have e: "doc (final (Inr w)) = doc w"
    by (simp add: final_def)
  show ?thesis
    using TreeItem_keeps_doc [of key w "activeElement w"]
      TreeGroup_keeps_takers [of key w "activeElement w" c] e
    by (simp add: keydown_def split: option.splits owner.splits)
qed

text \<open>Every node that a path leads to is the document itself or one of its descendants,
  so a document that stands alone has no node for another component to take the focus
  at.\<close>

lemma descendants_from_holds:
  "i < length ks \<Longrightarrow>
     (p @ [j + i], ks ! i) \<in> set (descendants_from ks p j)
     \<and> set (descendants (ks ! i) (p @ [j + i])) \<subseteq> set (descendants_from ks p j)"
proof (induction ks arbitrary: i j)
  case Nil
  then show ?case by simp
next
  case (Cons k ks)
  show ?case
  proof (cases i)
    case 0
    then show ?thesis by auto
  next
    case (Suc i')
    with Cons.prems have "i' < length ks" by simp
    from Cons.IH [OF this, of "Suc j"] Suc show ?thesis by auto
  qed
qed

lemma lookup_descendants:
  "lookup n r = Some k \<Longrightarrow> r \<noteq> [] \<Longrightarrow> (p @ r, k) \<in> set (descendants n p)"
proof (induction r arbitrary: n p)
  case Nil
  then show ?case by simp
next
  case (Cons i r)
  obtain t ow ks where n: "n = Node t ow ks" by (cases n)
  from Cons.prems(1) have i: "i < length ks" and l: "lookup (ks ! i) r = Some k"
    by (auto simp: n split: if_splits)
  from descendants_from_holds [OF i, of p 0]
  have h: "(p @ [i], ks ! i) \<in> set (descendants n p)"
    "set (descendants (ks ! i) (p @ [i])) \<subseteq> set (descendants n p)"
    by (simp_all add: n)
  show ?case
  proof (cases "r = []")
    case True
    with l h(1) show ?thesis by simp
  next
    case False
    from Cons.IH [OF l False, of "p @ [i]"] h(2) show ?thesis by auto
  qed
qed

lemma tree_alone_no_taker: "tree_alone d \<Longrightarrow> \<not> taken_by_other d q"
proof
  assume a: "tree_alone d" and t: "taken_by_other d q"
  from t obtain n where n: "lookup d q = Some n" and o: "other_takes n"
    by (auto simp: taken_by_other_def split: option.splits)
  have "(q, n) \<in> set (([], d) # descendants d [])"
  proof (cases "q = []")
    case True
    with n show ?thesis by simp
  next
    case False
    from lookup_descendants [OF n False, of "[]"] show ?thesis by simp
  qed
  with a have "\<not> other_takes n"
    by (auto simp: tree_alone_def list_all_iff)
  with o show False by simp
qed

lemma focused_on_update: "(focused_on p)\<lparr>activeElement := q\<rparr> = focused_on q"
  by (simp add: focused_on_def)

lemma doc_focused_on: "doc (focused_on p) = test_doc"
  by (simp add: focused_on_def)

lemma descendants_longer:
  "(q, k) \<in> set (descendants n p) \<Longrightarrow> length p < length q"
  "(q, k) \<in> set (descendants_from ks p i) \<Longrightarrow> length p < length q"
  by (induction n p and ks p i rule: descendants_descendants_from.induct) auto

lemma child_group_longer:
  assumes "child_group d p = Some q"
  shows "length p < length q"
proof -
  from assms obtain qs where g: "getElementsByTagName d p ''ol'' = q # qs"
    by (auto simp: child_group_def split: list.splits if_splits)
  then obtain n where n: "lookup d p = Some n"
    and "q \<in> fst ` set (descendants n p)"
    by (cases "lookup d p") (force simp: getElementsByTagName_def dest: arg_cong [where f = set])+
  then show ?thesis by (auto dest: descendants_longer(1))
qed

lemma nextSibling_length: "nextSibling d p = Some s \<Longrightarrow> length s = length p"
  by (auto simp: nextSibling_def split: if_splits option.splits)

lemma owning_item_length: "owning_item p = Some p2 \<Longrightarrow> length p2 < length p"
  by (auto simp: owning_item_def parentNode_def split: if_splits option.splits)

lemma moveTo_target:
  "activeElement (final (moveTo w t)) = activeElement w
   \<or> t = Some (activeElement (final (moveTo w t)))"
  by (simp add: moveTo_def final_def split: option.splits owner.splits other_focus.splits)

lemma next_at_last_sibling:
  assumes "nextSibling (doc w) p = None"
  shows "activeElement (final (TreeItem_next w p)) = activeElement w
         \<or> length (activeElement (final (TreeItem_next w p))) \<noteq> length p"
proof (cases "child_group (doc w) p")
  case (Some q)
  then have "TreeItem_next w p = moveTo w (Some q)"
    using assms by (simp add: TreeItem_next_cases)
  then show ?thesis
    using moveTo_target [of w "Some q"] child_group_longer [OF Some] by auto
next
  case None
  show ?thesis
  proof (cases "owning_item p")
    case n: None
    then show ?thesis using assms None by (simp add: TreeItem_next_cases final_def)
  next
    case (Some p2)
    then have e: "TreeItem_next w p = moveTo w (nextSibling (doc w) p2)"
      using assms None by (simp add: TreeItem_next_cases)
    show ?thesis
      using moveTo_target [of w "nextSibling (doc w) p2"] owning_item_length [OF Some]
        nextSibling_length [of "doc w" p2] by (auto simp: e)
  qed
qed

lemma previous_at_first_sibling:
  assumes "previousSibling p = None"
  shows "activeElement (final (TreeItem_previous w p)) = activeElement w
         \<or> length (activeElement (final (TreeItem_previous w p))) \<noteq> length p"
proof (cases p)
  case Nil
  then show ?thesis
    by (simp add: TreeItem_previous_def previousSibling_def parentNode_def moveTo_def final_def)
next
  case (Cons i r)
  then have "length (butlast p) \<noteq> length p" by simp
  then show ?thesis
    using assms moveTo_target [of w "Some (butlast p)"] Cons
    by (auto simp: TreeItem_previous_def parentNode_def)
qed

lemma same_length_prefixes:
  "prefix a f \<Longrightarrow> prefix b f \<Longrightarrow> length a = length b \<Longrightarrow> a = b"
  by (auto simp: prefix_def)

lemma activeIndex_first:
  assumes "prefix (p @ [0]) f" and "0 < m"
  shows "activeIndex_loop (map (\<lambda>j. p @ [j]) [0..<n]) f m = Some 0 \<or> n < m"
  using assms(2)
proof (induction m)
  case 0
  then show ?case by simp
next
  case (Suc i)
  show ?case
  proof (cases "n < Suc i")
    case True
    then show ?thesis by simp
  next
    case False
    then have i: "i < n" by simp
    show ?thesis
    proof (cases "i = 0")
      case True
      with assms(1) i show ?thesis by (simp add: contains_def)
    next
      case False
      have "\<not> prefix (p @ [i]) f"
      proof
        assume "prefix (p @ [i]) f"
        then have "p @ [i] = p @ [0]"
          using assms(1) by (rule same_length_prefixes) simp
        with False show False by simp
      qed
      with Suc.IH False i show ?thesis by (simp add: contains_def)
    qed
  qed
qed

lemma Menu_items_shape:
  assumes "Menu_items d i \<noteq> []"
  obtains p k where "Menu_items d i = map (\<lambda>j. p @ [j]) [0..<k]" and "0 < k"
  using assms by (auto simp: Menu_items_def split: option.splits)

lemma Menu_next_at_last:
  assumes "Menu_items (doc w) i \<noteq> []"
    and "contains (last (Menu_items (doc w) i)) (activeElement w)"
    and "querySelectorAll (doc w) (hd (Menu_items (doc w) i)) [''a'', ''button''] = t # ts"
  shows "Menu_next w i = Inr (w\<lparr>activeElement := t\<rparr>)"
proof -
  let ?items = "Menu_items (doc w) i"
  from assms(1) obtain m where m: "length ?items = Suc m" by (cases ?items) auto
  with assms(1) have l: "last ?items = ?items ! m" by (simp add: last_conv_nth)
  from assms(1) have h: "hd ?items = ?items ! 0" by (simp add: hd_conv_nth)
  have a: "Menu_activeIndex w i = Some m"
    using assms(2) by (simp add: Menu_activeIndex_def Let_def m l)
  show ?thesis
    using assms(3) by (simp add: Menu_next_def a Menu_select_def Let_def m h)
qed

lemma Menu_prev_at_first:
  assumes "Menu_items (doc w) i \<noteq> []"
    and "contains (hd (Menu_items (doc w) i)) (activeElement w)"
    and "querySelectorAll (doc w) (last (Menu_items (doc w) i)) [''a'', ''button''] = t # ts"
  shows "Menu_prev w i = Inr (w\<lparr>activeElement := t\<rparr>)"
proof -
  let ?items = "Menu_items (doc w) i"
  from assms(1) obtain p k where s: "?items = map (\<lambda>j. p @ [j]) [0..<k]" and k: "0 < k"
    by (rule Menu_items_shape)
  from k have h: "hd (map (\<lambda>j. p @ [j]) [0..<k]) = p @ [0]"
    by (simp add: hd_map upt_conv_Cons)
  from assms(2) have c: "prefix (p @ [0]) (activeElement w)"
    by (simp add: s h contains_def)
  have a: "Menu_activeIndex w i = Some 0"
    using activeIndex_first [OF c k, of k] by (simp add: Menu_activeIndex_def Let_def s)
  have len: "length ?items = k" by (simp add: s)
  from k have "nat (int k - 1) = k - 1" by simp
  with assms(1) len have idx: "?items ! nat (int k - 1) = last ?items"
    by (simp add: last_conv_nth)
  from k have j: "\<not> int k - 1 < 0" "\<not> int k \<le> int k - 1" by simp_all
  show ?thesis
    using assms(1) assms(3) by (simp add: Menu_prev_def a Menu_select_def Let_def len idx j)
qed


lemma small_focused_on_update: "(small_focused_on p)\<lparr>activeElement := q\<rparr> = small_focused_on q"
  by (simp add: small_focused_on_def)

lemma doc_small_focused_on: "doc (small_focused_on p) = small_doc"
  by (simp add: small_focused_on_def)

text \<open>In a mounted document the \<open>ol\<close> of a TreeGroup holds one \<open>li\<close> of a TreeItem for each
  child and nothing else, so the siblings of an item inside a group, and the first child
  of a non-empty group, are focusable.\<close>

lemma mount_TreeItem:
  "is_TreeItem c \<Longrightarrow> \<exists>ps ks. mount c = [Node ''li'' (TreeItemInst ps) ks]"
  by (cases c) (simp_all add: is_TreeItem_def)

lemma mount_items:
  "list_all is_TreeItem cs \<Longrightarrow>
     \<forall>k \<in> set (concat (map mount cs)). \<exists>ps ks. k = Node ''li'' (TreeItemInst ps) ks"
proof (induction cs)
  case Nil
  then show ?case by simp
next
  case (Cons c cs)
  then obtain ps ks where "mount c = [Node ''li'' (TreeItemInst ps) ks]"
    using mount_TreeItem [of c] by auto
  with Cons show ?case by auto
qed

lemma mounted_group_holds_items:
  assumes "mount (TreeGroupEl ps cs) = [Node ''ol'' (TreeGroupInst g) ks]"
  shows "\<forall>k \<in> set ks. \<exists>ps' ks'. k = Node ''li'' (TreeItemInst ps') ks'"
    and "length ks = length cs" and "g = TreeGroup_constructor ps cs"
proof -
  from assms have e: "error (TreeGroup_constructor ps cs) = None"
    by (simp add: Let_def split: if_splits)
  then have v: "list_all is_TreeItem cs" by (simp add: error_constructor)
  from assms e have k: "ks = concat (map mount cs)" and g: "g = TreeGroup_constructor ps cs"
    by (simp_all add: Let_def)
  show "\<forall>k \<in> set ks. \<exists>ps' ks'. k = Node ''li'' (TreeItemInst ps') ks'"
    using mount_items [OF v] by (simp only: k)
  show "g = TreeGroup_constructor ps cs" by (rule g)
  from v show "length ks = length cs" unfolding k
  proof (induction cs)
    case Nil
    then show ?case by simp
  next
    case (Cons c cs)
    then obtain ps' ks' where "mount c = [Node ''li'' (TreeItemInst ps') ks']"
      using mount_TreeItem [of c] by auto
    with Cons show ?case by simp
  qed
qed

section \<open>The repository's tests, in the model\<close>

text \<open>The tests of TreeItem simulate a key on an item of the test tree and read
  \<open>document.activeElement\<close>.\<close>

lemma tests_of_TreeItem_ArrowDown:
  "activeElement (final (TreeItem_onKeyDown ''ArrowDown'' (focused_on []) tg1_ti3)) = tg1_ti4"
  "activeElement (final (TreeItem_onKeyDown ''ArrowDown'' (focused_on []) ti1)) = ti2"
  "activeElement (final (TreeItem_onKeyDown ''ArrowDown'' (focused_on []) tg1_ti2)) = tg1_ti2_tg1"
  "activeElement (final (TreeItem_onKeyDown ''ArrowDown'' (focused_on []) tg1_ti4)) = ti2"
  by code_simp+

lemma tests_of_TreeItem_ArrowLeft_ArrowRight:
  "activeElement (final (TreeItem_onKeyDown ''ArrowLeft'' (focused_on []) tg1_ti4)) = tg1_ti3"
  "activeElement (final (TreeItem_onKeyDown ''ArrowRight'' (focused_on []) tg1_ti2)) = tg1_ti2_tg1"
  "activeElement (final (TreeItem_onKeyDown ''ArrowRight'' (focused_on []) tg1_ti3)) = tg1_ti4"
  "activeElement (final (TreeItem_onKeyDown ''ArrowRight'' (focused_on []) tg1_ti4)) = ti2"
  by code_simp+

lemma tests_of_TreeItem_ArrowUp:
  "activeElement (final (TreeItem_onKeyDown ''ArrowUp'' (focused_on []) ti2)) = ti1"
  "activeElement (final (TreeItem_onKeyDown ''ArrowUp'' (focused_on ti1) ti1)) = tree_root"
  "TreeItem_onKeyDown ''A'' (focused_on []) ti1 = Inr (focused_on [])"
  by code_simp+

text \<open>The tests of TreeGroup use the group under \<open>ti1\<close>, and an empty group mounted alone.\<close>

lemma tests_of_TreeGroup_keys:
  "activeElement (final (TreeGroup_onKeyDown ''ArrowDown'' (focused_on []) ti1_group)) = ti2"
  "expanded_at (final (TreeGroup_onKeyDown ''ArrowLeft'' (focused_on []) ti1_group)) ti1_group
     = Some False"
  "activeElement (final (TreeGroup_onKeyDown ''ArrowRight''
       (final (TreeGroup_onKeyDown ''ArrowLeft'' (focused_on []) ti1_group)) ti1_group)) = tg1_ti1"
  "expanded_at (final (TreeGroup_onKeyDown ''ArrowRight''
       (final (TreeGroup_onKeyDown ''ArrowLeft'' (focused_on []) ti1_group)) ti1_group)) ti1_group
     = Some True"
  "activeElement (final (TreeGroup_onKeyDown ''ArrowUp'' (focused_on []) ti1_group)) = ti1"
  "expanded_at (final (TreeGroup_onKeyDown ''Enter'' (focused_on []) ti1_group)) ti1_group
     = Some False"
  "expanded_at (final (TreeGroup_onKeyDown ''A'' (focused_on []) ti1_group)) ti1_group
     = Some True"
  by code_simp+

lemma tests_of_TreeGroup_click:
  "getAttribute test_doc ti1_group ''aria-expanded'' = Some ''true''"
  "getAttribute (doc (TreeGroup_onClick (focused_on []) ti1_group)) ti1_group ''aria-expanded''
     = Some ''false''"
  "getAttribute (doc (TreeGroup_onClick (TreeGroup_onClick (focused_on []) ti1_group) ti1_group))
     ti1_group ''aria-expanded'' = Some ''true''"
  by code_simp+

lemma tests_of_TreeGroup_mount:
  "map tagName (mount (TreeGroupEl [] [HostEl ''li'' [] [TextEl ''Branch 1''],
       HostEl ''li'' [] [TextEl ''Branch 2'']])) = [''h1'', ''pre'']"
  "map tagName (mount (TreeGroupEl [] [TreeEl [] []])) = [''h1'', ''pre'']"
  "map (\<lambda>n. map_of (attributes n) ''aria-expanded'') (mount (TreeGroupEl [] [])) = [None]"
  by code_simp+

section \<open>Two cases on the test tree that the claims below leave open\<close>

text \<open>ArrowDown on \<open>tg1-ti1-tg1-ti2-tg1-ti1\<close>, the last item of a group whose owner is the
  last item of its own group: \<open>parentNode.parentNode.nextSibling\<close> is \<open>null\<close>, \<open>moveTo\<close>
  throws, and the focus stays, although the ancestor \<open>tg1-ti1\<close> has the next sibling
  \<open>tg1-ti2\<close>.\<close>

lemma ArrowDown_deeply_nested_last_item:
  "nextSibling test_doc tg1_ti1_tg1_ti2_tg1_ti1 = None"
  "child_group test_doc tg1_ti1_tg1_ti2_tg1_ti1 = None"
  "owning_item tg1_ti1_tg1_ti2_tg1_ti1 = Some tg1_ti1_tg1_ti2"
  "nextSibling test_doc tg1_ti1_tg1_ti2 = None"
  "nextSibling test_doc tg1_ti1 = Some tg1_ti2"
  "TreeItem_onKeyDown ''ArrowDown'' (focused_on tg1_ti1_tg1_ti2_tg1_ti1) tg1_ti1_tg1_ti2_tg1_ti1
     = Inl (TypeError, focused_on tg1_ti1_tg1_ti2_tg1_ti1)"
  by code_simp+

text \<open>ArrowLeft on \<open>ti1\<close>, whose child group is expandable and expanded: the focus moves
  to the tree element and the group stays expanded.\<close>

lemma ArrowLeft_on_item_with_expanded_group:
  "child_group test_doc ti1 = Some ti1_group"
  "group_at test_doc ti1_group = Some ti1_group_instance"
  "expandable ti1_group_instance \<and> TreeGroup_expanded ti1_group_instance"
  "TreeItem_onKeyDown ''ArrowLeft'' (focused_on ti1) ti1 = Inr (focused_on tree_root)"
  "expanded_at (focused_on tree_root) ti1_group = Some True"
  by code_simp+

section \<open>A tree beside a menu\<close>

text \<open>
  The only item of the tree in \<open>beside_doc\<close> has no next sibling and no group, so
  ArrowDown climbs to \<open>parentNode.parentNode\<close>, the container of the tree, and hands its
  next sibling to \<open>moveTo\<close>. That node is the \<open>nav\<close> of the Menu: the Menu's \<open>focus\<close> is
  called and the focus leaves the tree. \<open>Menu.focus\<close> itself puts it on the link of the
  menu's first item.
\<close>

lemma ArrowDown_hands_focus_to_menu:
  "is_item beside_doc beside_item
   \<and> nextSibling beside_doc beside_item = None
   \<and> child_group beside_doc beside_item = None
   \<and> owning_item beside_item = Some [0]
   \<and> nextSibling beside_doc [0] = Some beside_nav
   \<and> map_option tagName (lookup beside_doc beside_nav) = Some ''nav''
   \<and> keydown ''ArrowDown'' (beside_focused_on beside_item) = Inr (beside_focused_on beside_nav)
   \<and> Menu_focus (beside_focused_on beside_item) ''m'' = Inr (beside_focused_on beside_link)
   \<and> map_option tagName (lookup beside_doc beside_link) = Some ''a''
   \<and> \<not> focusable beside_doc beside_link"
  by code_simp

section \<open>The claims\<close>

subsection \<open>Step-Down\<close>

text \<open>
  C1, as amended. ArrowDown on an item: when the item has a next sibling and its child
  group is absent or expanded, the focus moves to the next sibling; when the item has a
  child group and either no next sibling or a group that is not expanded, the focus
  moves to the element of the child group itself. In neither case does it move to the
  first item of the child group.
\<close>

theorem TreeItem_ArrowDown:
  "(nextSibling (doc w) p = Some s \<and> focusable (doc w) s
      \<and> (child_group (doc w) p = None
          \<or> (child_group (doc w) p = Some q \<and> isExpanded (doc w) q))
     \<longrightarrow> TreeItem_onKeyDown ''ArrowDown'' w p = Inr (w\<lparr>activeElement := s\<rparr>))
   \<and> (child_group (doc w) p = Some q \<and> is_group (doc w) q
      \<and> (nextSibling (doc w) p = None \<or> \<not> isExpanded (doc w) q)
     \<longrightarrow> TreeItem_onKeyDown ''ArrowDown'' w p = Inr (w\<lparr>activeElement := q\<rparr>))"
proof (intro conjI impI)
  assume a: "nextSibling (doc w) p = Some s \<and> focusable (doc w) s
      \<and> (child_group (doc w) p = None
          \<or> (child_group (doc w) p = Some q \<and> isExpanded (doc w) q))"
  then have "TreeItem_next w p = moveTo w (Some s)"
    by (auto simp: TreeItem_next_cases)
  with a show "TreeItem_onKeyDown ''ArrowDown'' w p = Inr (w\<lparr>activeElement := s\<rparr>)"
    by (simp add: TreeItem_keys moveTo_focusable)
next
  assume a: "child_group (doc w) p = Some q \<and> is_group (doc w) q
      \<and> (nextSibling (doc w) p = None \<or> \<not> isExpanded (doc w) q)"
  then have "TreeItem_next w p = moveTo w (Some q)"
    by (auto simp: TreeItem_next_cases)
  moreover from a have "focusable (doc w) q" by (simp add: focusable_def)
  ultimately show "TreeItem_onKeyDown ''ArrowDown'' w p = Inr (w\<lparr>activeElement := q\<rparr>)"
    by (simp add: TreeItem_keys moveTo_focusable)
qed

theorem TreeItem_ArrowDown_witness:
  "nextSibling test_doc ti1 = Some ti2 \<and> focusable test_doc ti2
   \<and> child_group test_doc ti1 = Some ti1_group \<and> isExpanded test_doc ti1_group
   \<and> TreeItem_onKeyDown ''ArrowDown'' (focused_on ti1) ti1 = Inr (focused_on ti2)
   \<and> nextSibling test_doc tg1_ti3 = Some tg1_ti4 \<and> focusable test_doc tg1_ti4
   \<and> child_group test_doc tg1_ti3 = None
   \<and> TreeItem_onKeyDown ''ArrowDown'' (focused_on tg1_ti3) tg1_ti3 = Inr (focused_on tg1_ti4)
   \<and> child_group test_doc tg1_ti2 = Some tg1_ti2_tg1 \<and> is_group test_doc tg1_ti2_tg1
   \<and> \<not> isExpanded test_doc tg1_ti2_tg1
   \<and> TreeItem_onKeyDown ''ArrowDown'' (focused_on tg1_ti2) tg1_ti2 = Inr (focused_on tg1_ti2_tg1)"
proof -
  have a1: "nextSibling test_doc ti1 = Some ti2" by code_simp
  have a2: "focusable test_doc ti2" by code_simp
  have a3: "child_group test_doc ti1 = Some ti1_group" by code_simp
  have a4: "isExpanded test_doc ti1_group" by code_simp
  have b1: "nextSibling test_doc tg1_ti3 = Some tg1_ti4" by code_simp
  have b2: "focusable test_doc tg1_ti4" by code_simp
  have b3: "child_group test_doc tg1_ti3 = None" by code_simp
  have c1: "child_group test_doc tg1_ti2 = Some tg1_ti2_tg1" by code_simp
  have c2: "is_group test_doc tg1_ti2_tg1" by code_simp
  have c3: "\<not> isExpanded test_doc tg1_ti2_tg1" by code_simp
  show ?thesis
    using TreeItem_ArrowDown [of "focused_on ti1" ti1 ti2 ti1_group]
      TreeItem_ArrowDown [of "focused_on tg1_ti3" tg1_ti3 tg1_ti4 "[]"]
      TreeItem_ArrowDown [of "focused_on tg1_ti2" tg1_ti2 "[]" tg1_ti2_tg1]
      a1 a2 a3 a4 b1 b2 b3 c1 c2 c3
    by (simp add: focused_on_update doc_focused_on)
qed

text \<open>
  C1 as stated fails on the tree of the repository's tests: \<open>ti1\<close> has an expanded child
  group whose first item is \<open>tg1-ti1\<close>, and ArrowDown moves the focus to its sibling
  \<open>ti2\<close>; \<open>tg1-ti2\<close> has a collapsed child group and the next sibling \<open>tg1-ti3\<close>, and
  ArrowDown moves the focus to the group \<open>tg1-ti2-tg1\<close>.
\<close>

theorem ArrowDown_skips_expanded_group:
  "child_group test_doc ti1 = Some ti1_group
   \<and> expanded_at (focused_on ti1) ti1_group = Some True
   \<and> firstChild test_doc ti1_group = Some tg1_ti1
   \<and> TreeItem_onKeyDown ''ArrowDown'' (focused_on ti1) ti1 = Inr (focused_on ti2)
   \<and> ti2 \<noteq> tg1_ti1
   \<and> child_group test_doc tg1_ti2 = Some tg1_ti2_tg1
   \<and> expanded_at (focused_on tg1_ti2) tg1_ti2_tg1 = Some False
   \<and> nextSibling test_doc tg1_ti2 = Some tg1_ti3
   \<and> TreeItem_onKeyDown ''ArrowDown'' (focused_on tg1_ti2) tg1_ti2 = Inr (focused_on tg1_ti2_tg1)
   \<and> tg1_ti2_tg1 \<noteq> tg1_ti3"
  by code_simp




subsection \<open>Step-Into and Collapse-left\<close>

text \<open>
  C3, as amended. ArrowRight on an item with a child group moves the focus to the element
  of that group; ArrowRight on an item without a child group does what ArrowDown does on
  that item. It is ArrowRight on the focused group that expands the group (if it is
  expandable and collapsed) and moves the focus to its first child.
\<close>

theorem TreeItem_ArrowRight:
  "(child_group (doc w) p = Some q \<and> is_group (doc w) q
     \<longrightarrow> activeElement (final (TreeItem_onKeyDown ''ArrowRight'' w p)) = q)
   \<and> (child_group (doc w) p = None
     \<longrightarrow> TreeItem_onKeyDown ''ArrowRight'' w p = TreeItem_onKeyDown ''ArrowDown'' w p)
   \<and> (group_at (doc w) q = Some g \<and> firstChild (doc w) q = Some c \<and> focusable (doc w) c
     \<longrightarrow> TreeGroup_onKeyDown ''ArrowRight'' w q = Inr ((TreeGroup_expand w q)\<lparr>activeElement := c\<rparr>)
        \<and> expanded_at ((TreeGroup_expand w q)\<lparr>activeElement := c\<rparr>) q
            = Some (expandable g \<or> TreeGroup_expanded g))"
proof (intro conjI impI)
  assume a: "child_group (doc w) p = Some q \<and> is_group (doc w) q"
  then have "TreeItem_stepInto w p = moveTo w (Some q)"
    by (simp add: TreeItem_stepInto_cases)
  moreover from a have "focusable (doc w) q" by (simp add: focusable_def)
  ultimately show "activeElement (final (TreeItem_onKeyDown ''ArrowRight'' w p)) = q"
    by (simp add: TreeItem_keys moveTo_focusable final_def)
next
  assume "child_group (doc w) p = None"
  then show "TreeItem_onKeyDown ''ArrowRight'' w p = TreeItem_onKeyDown ''ArrowDown'' w p"
    by (simp add: TreeItem_keys TreeItem_stepInto_cases TreeItem_next_cases)
next
  assume a: "group_at (doc w) q = Some g \<and> firstChild (doc w) q = Some c \<and> focusable (doc w) c"
  let ?w1 = "TreeGroup_expand w q"
  from a have f: "firstChild (doc ?w1) q = Some c" and c: "focusable (doc ?w1) c"
    by (simp_all add: expand_keeps)
  show "TreeGroup_onKeyDown ''ArrowRight'' w q = Inr (?w1\<lparr>activeElement := c\<rparr>)"
    using moveTo_focusable [OF c] by (simp add: TreeGroup_keys TreeGroup_stepInto_def f)
  from a expand_effect [of w q g]
  show "expanded_at (?w1\<lparr>activeElement := c\<rparr>) q = Some (expandable g \<or> TreeGroup_expanded g)"
    by (simp add: expanded_at_def)
qed

theorem TreeItem_ArrowRight_witness:
  "child_group test_doc tg1_ti2 = Some tg1_ti2_tg1 \<and> is_group test_doc tg1_ti2_tg1
   \<and> activeElement (final (TreeItem_onKeyDown ''ArrowRight'' (focused_on tg1_ti2) tg1_ti2))
        = tg1_ti2_tg1
   \<and> child_group test_doc tg1_ti3 = None
   \<and> TreeItem_onKeyDown ''ArrowRight'' (focused_on tg1_ti3) tg1_ti3
        = TreeItem_onKeyDown ''ArrowDown'' (focused_on tg1_ti3) tg1_ti3
   \<and> firstChild test_doc tg1_ti2_tg1 = Some tg1_ti2_tg1_ti1
   \<and> focusable test_doc tg1_ti2_tg1_ti1
   \<and> expanded_at (focused_on tg1_ti2_tg1) tg1_ti2_tg1 = Some False
   \<and> TreeGroup_onKeyDown ''ArrowRight'' (focused_on tg1_ti2_tg1) tg1_ti2_tg1
        = Inr ((TreeGroup_expand (focused_on tg1_ti2_tg1) tg1_ti2_tg1)\<lparr>activeElement := tg1_ti2_tg1_ti1\<rparr>)
   \<and> expanded_at
        ((TreeGroup_expand (focused_on tg1_ti2_tg1) tg1_ti2_tg1)\<lparr>activeElement := tg1_ti2_tg1_ti1\<rparr>)
        tg1_ti2_tg1 = Some True"
proof -
  have a1: "child_group test_doc tg1_ti2 = Some tg1_ti2_tg1" by code_simp
  have a2: "is_group test_doc tg1_ti2_tg1" by code_simp
  have b1: "child_group test_doc tg1_ti3 = None" by code_simp
  have c1: "group_at test_doc tg1_ti2_tg1 =
      Some \<lparr>props = [(''expanded'', ''false''), (''id'', ''tg1-ti2-tg1'')], error = None,
            expandable = True, state_expanded = False\<rparr>" by code_simp
  have c2: "firstChild test_doc tg1_ti2_tg1 = Some tg1_ti2_tg1_ti1" by code_simp
  have c3: "focusable test_doc tg1_ti2_tg1_ti1" by code_simp
  have c4: "expanded_at (focused_on tg1_ti2_tg1) tg1_ti2_tg1 = Some False" by code_simp
  show ?thesis
    using TreeItem_ArrowRight [of "focused_on tg1_ti2" tg1_ti2 tg1_ti2_tg1]
      TreeItem_ArrowRight [of "focused_on tg1_ti3" tg1_ti3]
      TreeItem_ArrowRight [of "focused_on tg1_ti2_tg1" "[]" tg1_ti2_tg1
        "\<lparr>props = [(''expanded'', ''false''), (''id'', ''tg1-ti2-tg1'')], error = None,
            expandable = True, state_expanded = False\<rparr>" tg1_ti2_tg1_ti1]
      a1 a2 b1 c1 c2 c3 c4
    by (simp add: focused_on_update doc_focused_on)
qed

text \<open>
  C3 as stated fails on the tree of the repository's tests: ArrowRight on \<open>tg1-ti2\<close>,
  whose child group is collapsed, moves the focus to the group \<open>tg1-ti2-tg1\<close>, not to
  its first item, and the group is as collapsed as before.
\<close>

theorem ArrowRight_on_item_focuses_group:
  "child_group test_doc tg1_ti2 = Some tg1_ti2_tg1
   \<and> expanded_at (focused_on tg1_ti2) tg1_ti2_tg1 = Some False
   \<and> firstChild test_doc tg1_ti2_tg1 = Some tg1_ti2_tg1_ti1
   \<and> TreeItem_onKeyDown ''ArrowRight'' (focused_on tg1_ti2) tg1_ti2 = Inr (focused_on tg1_ti2_tg1)
   \<and> tg1_ti2_tg1 \<noteq> tg1_ti2_tg1_ti1
   \<and> expanded_at (focused_on tg1_ti2_tg1) tg1_ti2_tg1 = Some False"
  by code_simp

text \<open>
  C4, as amended. ArrowLeft on an item whose child group is absent, or is not both
  expandable and expanded, does what ArrowUp does on that item: the focus moves to the
  previous sibling, or else to the parent element of the item, which is the element of
  the group (or tree) that contains it and not the item that owns that group. ArrowLeft on
  a focused group that is expandable and expanded collapses it and keeps the focus on the
  group. (For an item whose own child group is expandable and expanded, nothing is
  claimed.)
\<close>

theorem TreeItem_ArrowLeft:
  "(child_group (doc w) p = None
      \<or> (child_group (doc w) p = Some c \<and> group_at (doc w) c = Some h
           \<and> \<not> (expandable h \<and> TreeGroup_expanded h))
     \<longrightarrow> TreeItem_onKeyDown ''ArrowLeft'' w p = TreeItem_onKeyDown ''ArrowUp'' w p
        \<and> (previousSibling p = Some s \<and> focusable (doc w) s
             \<longrightarrow> TreeItem_onKeyDown ''ArrowLeft'' w p = Inr (w\<lparr>activeElement := s\<rparr>))
        \<and> (previousSibling p = None \<and> parentNode p = Some q \<and> focusable (doc w) q
             \<longrightarrow> TreeItem_onKeyDown ''ArrowLeft'' w p = Inr (w\<lparr>activeElement := q\<rparr>)))
   \<and> (group_at (doc w) q = Some g \<and> expandable g \<and> TreeGroup_expanded g
     \<longrightarrow> TreeGroup_onKeyDown ''ArrowLeft'' w q
           = Inr (w\<lparr>activeElement := q, doc := setState (doc w) q False\<rparr>)
        \<and> expanded_at (w\<lparr>activeElement := q, doc := setState (doc w) q False\<rparr>) q = Some False)"
proof (intro conjI impI)
  show "TreeItem_onKeyDown ''ArrowLeft'' w p = TreeItem_onKeyDown ''ArrowUp'' w p"
    by (simp add: TreeItem_keys)
next
  assume "previousSibling p = Some s \<and> focusable (doc w) s"
  then show "TreeItem_onKeyDown ''ArrowLeft'' w p = Inr (w\<lparr>activeElement := s\<rparr>)"
    by (simp add: TreeItem_keys TreeItem_previous_def moveTo_focusable)
next
  assume "previousSibling p = None \<and> parentNode p = Some q \<and> focusable (doc w) q"
  then show "TreeItem_onKeyDown ''ArrowLeft'' w p = Inr (w\<lparr>activeElement := q\<rparr>)"
    by (simp add: TreeItem_keys TreeItem_previous_def moveTo_focusable)
next
  assume a: "group_at (doc w) q = Some g \<and> expandable g \<and> TreeGroup_expanded g"
  then show "TreeGroup_onKeyDown ''ArrowLeft'' w q
      = Inr (w\<lparr>activeElement := q, doc := setState (doc w) q False\<rparr>)"
    by (simp add: TreeGroup_keys TreeGroup_collapse_def)
  from a show "expanded_at (w\<lparr>activeElement := q, doc := setState (doc w) q False\<rparr>) q = Some False"
    by (simp add: expanded_at_def group_at_setState_same TreeGroup_expanded_def)
qed

theorem TreeItem_ArrowLeft_witness:
  "child_group test_doc tg1_ti4 = None
   \<and> TreeItem_onKeyDown ''ArrowLeft'' (focused_on tg1_ti4) tg1_ti4
       = TreeItem_onKeyDown ''ArrowUp'' (focused_on tg1_ti4) tg1_ti4
   \<and> previousSibling tg1_ti4 = Some tg1_ti3 \<and> focusable test_doc tg1_ti3
   \<and> TreeItem_onKeyDown ''ArrowLeft'' (focused_on tg1_ti4) tg1_ti4 = Inr (focused_on tg1_ti3)
   \<and> child_group test_doc tg1_ti1_tg1_ti1 = None
   \<and> previousSibling tg1_ti1_tg1_ti1 = None
   \<and> parentNode tg1_ti1_tg1_ti1 = Some tg1_ti1_group \<and> focusable test_doc tg1_ti1_group
   \<and> TreeItem_onKeyDown ''ArrowLeft'' (focused_on tg1_ti1_tg1_ti1) tg1_ti1_tg1_ti1
       = Inr (focused_on tg1_ti1_group)
   \<and> group_at test_doc ti1_group = Some ti1_group_instance
   \<and> expandable ti1_group_instance \<and> TreeGroup_expanded ti1_group_instance
   \<and> TreeGroup_onKeyDown ''ArrowLeft'' (focused_on ti1) ti1_group
        = Inr ((focused_on ti1)\<lparr>activeElement := ti1_group, doc := setState test_doc ti1_group False\<rparr>)
   \<and> expanded_at ((focused_on ti1)\<lparr>activeElement := ti1_group, doc := setState test_doc ti1_group False\<rparr>)
        ti1_group = Some False"
proof -
  have a0: "child_group test_doc tg1_ti4 = None" by code_simp
  have a1: "previousSibling tg1_ti4 = Some tg1_ti3" by code_simp
  have a2: "focusable test_doc tg1_ti3" by code_simp
  have b0: "child_group test_doc tg1_ti1_tg1_ti1 = None" by code_simp
  have b1: "previousSibling tg1_ti1_tg1_ti1 = None" by code_simp
  have b2: "parentNode tg1_ti1_tg1_ti1 = Some tg1_ti1_group" by code_simp
  have b3: "focusable test_doc tg1_ti1_group" by code_simp
  have c1: "group_at test_doc ti1_group = Some ti1_group_instance" by code_simp
  have c2: "expandable ti1_group_instance" by code_simp
  have c3: "TreeGroup_expanded ti1_group_instance" by code_simp
  note t1 = TreeItem_ArrowLeft [of "focused_on tg1_ti4" tg1_ti4 "[]" single_item_group tg1_ti3
      "[]" single_item_group]
  note t2 = TreeItem_ArrowLeft [of "focused_on tg1_ti1_tg1_ti1" tg1_ti1_tg1_ti1 "[]"
      single_item_group "[]" tg1_ti1_group single_item_group]
  note t3 = TreeItem_ArrowLeft [of "focused_on ti1" ti1 "[]" single_item_group "[]" ti1_group
      ti1_group_instance]
  have h1: "child_group (doc (focused_on tg1_ti4)) tg1_ti4 = None
      \<or> (child_group (doc (focused_on tg1_ti4)) tg1_ti4 = Some []
          \<and> group_at (doc (focused_on tg1_ti4)) [] = Some single_item_group
          \<and> \<not> (expandable single_item_group \<and> TreeGroup_expanded single_item_group))"
    using a0 by (simp add: doc_focused_on)
  note u1 = t1 [THEN conjunct1, THEN mp, OF h1]
  have r1: "TreeItem_onKeyDown ''ArrowLeft'' (focused_on tg1_ti4) tg1_ti4
      = TreeItem_onKeyDown ''ArrowUp'' (focused_on tg1_ti4) tg1_ti4"
    by (rule u1 [THEN conjunct1])
  have p1: "previousSibling tg1_ti4 = Some tg1_ti3 \<and> focusable (doc (focused_on tg1_ti4)) tg1_ti3"
    using a1 a2 by (simp add: doc_focused_on)
  have r2: "TreeItem_onKeyDown ''ArrowLeft'' (focused_on tg1_ti4) tg1_ti4
      = Inr (focused_on tg1_ti3)"
    using u1 [THEN conjunct2, THEN conjunct1, THEN mp, OF p1] by (simp only: focused_on_update)
  have h2: "child_group (doc (focused_on tg1_ti1_tg1_ti1)) tg1_ti1_tg1_ti1 = None
      \<or> (child_group (doc (focused_on tg1_ti1_tg1_ti1)) tg1_ti1_tg1_ti1 = Some []
          \<and> group_at (doc (focused_on tg1_ti1_tg1_ti1)) [] = Some single_item_group
          \<and> \<not> (expandable single_item_group \<and> TreeGroup_expanded single_item_group))"
    using b0 by (simp add: doc_focused_on)
  note u2 = t2 [THEN conjunct1, THEN mp, OF h2]
  have p2: "previousSibling tg1_ti1_tg1_ti1 = None
      \<and> parentNode tg1_ti1_tg1_ti1 = Some tg1_ti1_group
      \<and> focusable (doc (focused_on tg1_ti1_tg1_ti1)) tg1_ti1_group"
    using b1 b2 b3 by (simp add: doc_focused_on)
  have r3: "TreeItem_onKeyDown ''ArrowLeft'' (focused_on tg1_ti1_tg1_ti1)
      tg1_ti1_tg1_ti1 = Inr (focused_on tg1_ti1_group)"
    using u2 [THEN conjunct2, THEN conjunct2, THEN mp, OF p2] by (simp only: focused_on_update)
  from t3 have "group_at (doc (focused_on ti1)) ti1_group = Some ti1_group_instance
        \<and> expandable ti1_group_instance \<and> TreeGroup_expanded ti1_group_instance
      \<longrightarrow> TreeGroup_onKeyDown ''ArrowLeft'' (focused_on ti1) ti1_group
            = Inr ((focused_on ti1)\<lparr>activeElement := ti1_group,
                    doc := setState (doc (focused_on ti1)) ti1_group False\<rparr>)
          \<and> expanded_at ((focused_on ti1)\<lparr>activeElement := ti1_group,
                    doc := setState (doc (focused_on ti1)) ti1_group False\<rparr>) ti1_group = Some False"
    by blast
  with c1 c2 c3 have r4: "TreeGroup_onKeyDown ''ArrowLeft'' (focused_on ti1) ti1_group
        = Inr ((focused_on ti1)\<lparr>activeElement := ti1_group, doc := setState test_doc ti1_group False\<rparr>)
      \<and> expanded_at ((focused_on ti1)\<lparr>activeElement := ti1_group, doc := setState test_doc ti1_group False\<rparr>)
          ti1_group = Some False"
    by (simp add: doc_focused_on)
  show ?thesis
    using r1 r2 r3 r4 a0 a1 a2 b0 b1 b2 b3 c1 c2 c3 by blast
qed

text \<open>
  C4 as stated fails on the tree of the repository's tests: \<open>tg1-ti1-tg1-ti1\<close> has no
  child group and no previous sibling, and the item that owns its group is \<open>tg1-ti1\<close>.
  ArrowLeft moves the focus to the element of the group that contains it, not to
  \<open>tg1-ti1\<close>.
\<close>

theorem ArrowLeft_on_first_item_focuses_group:
  "child_group test_doc tg1_ti1_tg1_ti1 = None
   \<and> previousSibling tg1_ti1_tg1_ti1 = None
   \<and> owning_item tg1_ti1_tg1_ti1 = Some tg1_ti1
   \<and> is_item test_doc tg1_ti1
   \<and> TreeItem_onKeyDown ''ArrowLeft'' (focused_on tg1_ti1_tg1_ti1) tg1_ti1_tg1_ti1
       = Inr (focused_on tg1_ti1_group)
   \<and> is_group test_doc tg1_ti1_group
   \<and> tg1_ti1_group \<noteq> tg1_ti1"
  by code_simp

subsection \<open>Where the focus can be\<close>

text \<open>
  C5, as amended. After a key pressed on a focused item or group, the focus is on the
  element of an item, of a group or of the tree (group elements do receive the focus),
  or the handler has called the \<open>focus\<close> method of another component, the owner of the
  node it moved to, and that component has taken the focus. In a document that holds no
  node of such a component the focus is always on an element of the tree.
\<close>

theorem focus_on_tree_or_taken_by_other:
  "is_item (doc w) (activeElement w) \<or> is_group (doc w) (activeElement w) \<Longrightarrow>
     (focusable (doc (final (keydown key w))) (activeElement (final (keydown key w)))
      \<or> taken_by_other (doc (final (keydown key w))) (activeElement (final (keydown key w))))
     \<and> (tree_alone (doc w) \<longrightarrow>
          focusable (doc (final (keydown key w))) (activeElement (final (keydown key w))))"
proof -
  assume "is_item (doc w) (activeElement w) \<or> is_group (doc w) (activeElement w)"
  then have "on_tree_or_taken w" by (auto simp: on_tree_or_taken_def focusable_def)
  then have "on_tree_or_taken (final (keydown key w))"
    by (rule keydown_keeps_on_tree_or_taken)
  then have d: "focusable (doc (final (keydown key w))) (activeElement (final (keydown key w)))
      \<or> taken_by_other (doc (final (keydown key w))) (activeElement (final (keydown key w)))"
    by (simp add: on_tree_or_taken_def)
  have "\<not> taken_by_other (doc (final (keydown key w))) (activeElement (final (keydown key w)))"
    if "tree_alone (doc w)"
    using tree_alone_no_taker [OF that] by (simp add: keydown_keeps_takers)
  with d show ?thesis by blast
qed

theorem focus_on_tree_or_taken_by_other_witness:
  "is_item (doc (focused_on tg1_ti4)) (activeElement (focused_on tg1_ti4))
   \<and> tree_alone (doc (focused_on tg1_ti4))
   \<and> focusable (doc (final (keydown ''ArrowDown'' (focused_on tg1_ti4))))
       (activeElement (final (keydown ''ArrowDown'' (focused_on tg1_ti4))))
   \<and> activeElement (final (keydown ''ArrowDown'' (focused_on tg1_ti4))) = ti2
   \<and> is_group (doc (focused_on ti1_group)) (activeElement (focused_on ti1_group))
   \<and> tree_alone (doc (focused_on ti1_group))
   \<and> focusable (doc (final (keydown ''ArrowLeft'' (focused_on ti1_group))))
       (activeElement (final (keydown ''ArrowLeft'' (focused_on ti1_group))))
   \<and> activeElement (final (keydown ''ArrowLeft'' (focused_on ti1_group))) = ti1_group
   \<and> is_item (doc (beside_focused_on beside_item)) (activeElement (beside_focused_on beside_item))
   \<and> (focusable (doc (final (keydown ''ArrowDown'' (beside_focused_on beside_item))))
         (activeElement (final (keydown ''ArrowDown'' (beside_focused_on beside_item))))
       \<or> taken_by_other (doc (final (keydown ''ArrowDown'' (beside_focused_on beside_item))))
           (activeElement (final (keydown ''ArrowDown'' (beside_focused_on beside_item)))))
   \<and> activeElement (final (keydown ''ArrowDown'' (beside_focused_on beside_item))) = beside_nav
   \<and> taken_by_other beside_doc beside_nav
   \<and> \<not> focusable beside_doc beside_nav"
proof -
  have a1: "is_item (doc (focused_on tg1_ti4)) (activeElement (focused_on tg1_ti4))" by code_simp
  have a2: "activeElement (final (keydown ''ArrowDown'' (focused_on tg1_ti4))) = ti2" by code_simp
  have a3: "tree_alone (doc (focused_on tg1_ti4))" by code_simp
  have b1: "is_group (doc (focused_on ti1_group)) (activeElement (focused_on ti1_group))"
    by code_simp
  have b2: "activeElement (final (keydown ''ArrowLeft'' (focused_on ti1_group))) = ti1_group"
    by code_simp
  have b3: "tree_alone (doc (focused_on ti1_group))" by code_simp
  have c1: "is_item (doc (beside_focused_on beside_item))
      (activeElement (beside_focused_on beside_item))"
    by code_simp
  have c2: "activeElement (final (keydown ''ArrowDown'' (beside_focused_on beside_item)))
      = beside_nav"
    by code_simp
  have c3: "taken_by_other beside_doc beside_nav" by code_simp
  have c4: "\<not> focusable beside_doc beside_nav" by code_simp
  have a: "focusable (doc (final (keydown ''ArrowDown'' (focused_on tg1_ti4))))
      (activeElement (final (keydown ''ArrowDown'' (focused_on tg1_ti4))))"
    using focus_on_tree_or_taken_by_other [of "focused_on tg1_ti4" "''ArrowDown''"] a1 a3
    by blast
  have b: "focusable (doc (final (keydown ''ArrowLeft'' (focused_on ti1_group))))
      (activeElement (final (keydown ''ArrowLeft'' (focused_on ti1_group))))"
    using focus_on_tree_or_taken_by_other [of "focused_on ti1_group" "''ArrowLeft''"] b1 b3
    by blast
  have c: "focusable (doc (final (keydown ''ArrowDown'' (beside_focused_on beside_item))))
         (activeElement (final (keydown ''ArrowDown'' (beside_focused_on beside_item))))
       \<or> taken_by_other (doc (final (keydown ''ArrowDown'' (beside_focused_on beside_item))))
           (activeElement (final (keydown ''ArrowDown'' (beside_focused_on beside_item))))"
    using focus_on_tree_or_taken_by_other [of "beside_focused_on beside_item" "''ArrowDown''"] c1
    by blast
  show ?thesis
    using a1 a2 a3 a b1 b2 b3 b c1 c c2 c3 c4 by blast
qed

text \<open>
  C5 as stated fails on the tree of the repository's tests: with the focus on the item
  \<open>tg1-ti2\<close>, ArrowDown puts the focus on the group \<open>tg1-ti2-tg1\<close>.
\<close>

theorem focus_lands_on_group:
  "is_item (doc (focused_on tg1_ti2)) (activeElement (focused_on tg1_ti2))
   \<and> activeElement (final (keydown ''ArrowDown'' (focused_on tg1_ti2))) = tg1_ti2_tg1
   \<and> doc (final (keydown ''ArrowDown'' (focused_on tg1_ti2))) = test_doc
   \<and> is_group test_doc tg1_ti2_tg1
   \<and> \<not> is_item test_doc tg1_ti2_tg1
   \<and> \<not> is_tree_root test_doc tg1_ti2_tg1"
  by code_simp

subsection \<open>Expansion state\<close>

text \<open>
  C6, as amended. A TreeGroup without items is not expandable and its getter \<open>expanded\<close>
  reports false whatever hint the caller gave; a TreeGroup with exactly one item is not
  expandable and reports true unless the caller gave the hint \<open>'false'\<close>, in which case it
  reports false. What TreeItem reads when it traverses (the \<open>aria-expanded\<close> attribute
  being \<open>'true'\<close>) agrees with the getter, as long as the caller passed no \<open>aria-expanded\<close>
  of its own.
\<close>

theorem TreeGroup_small_group_expanded:
  "(length (filter is_TreeItem cs) = 0 \<longrightarrow>
      \<not> expandable (TreeGroup_constructor ps cs) \<and> \<not> TreeGroup_expanded (TreeGroup_constructor ps cs))
   \<and> (length (filter is_TreeItem cs) = 1 \<longrightarrow>
      \<not> expandable (TreeGroup_constructor ps cs)
      \<and> TreeGroup_expanded (TreeGroup_constructor ps cs) = (map_of ps ''expanded'' \<noteq> Some ''false''))
   \<and> (length (filter is_TreeItem cs) \<le> 1 \<and> map_of ps ''aria-expanded'' = None \<longrightarrow>
      (map_of (TreeGroup_attributes (TreeGroup_constructor ps cs)) ''aria-expanded'' = Some ''true'')
        = TreeGroup_expanded (TreeGroup_constructor ps cs))"
  by (simp add: expandable_constructor expanded_constructor aria_expanded_attribute props_constructor)

theorem TreeGroup_small_group_expanded_witness:
  "length (filter is_TreeItem []) = 0
   \<and> \<not> expandable (TreeGroup_constructor [(''expanded'', ''true'')] [])
   \<and> \<not> TreeGroup_expanded (TreeGroup_constructor [(''expanded'', ''true'')] [])
   \<and> length (filter is_TreeItem [leaf ''b1'' ''B1'']) = 1
   \<and> \<not> expandable (TreeGroup_constructor [] [leaf ''b1'' ''B1''])
   \<and> TreeGroup_expanded (TreeGroup_constructor [] [leaf ''b1'' ''B1''])
   \<and> map_of (TreeGroup_attributes (TreeGroup_constructor [] [leaf ''b1'' ''B1''])) ''aria-expanded''
        = Some ''true''"
proof -
  have h0: "length (filter is_TreeItem []) = 0" by simp
  have h1: "length (filter is_TreeItem [leaf ''b1'' ''B1'']) = 1" by code_simp
  have h2: "map_of ([]::props) ''expanded'' \<noteq> Some ''false''" by simp
  have h3: "map_of ([]::props) ''aria-expanded'' = None" by simp
  show ?thesis
    using TreeGroup_small_group_expanded [of "[]" "[(''expanded'', ''true'')]"]
      TreeGroup_small_group_expanded [of "[leaf ''b1'' ''B1'']" "[]"] h0 h1 h2 h3
    by simp
qed

text \<open>
  C6 as stated fails: the empty group, and the group of one item with the hint
  \<open>'false'\<close>, are not expandable and yet report that they are not expanded; the second
  renders no \<open>aria-expanded\<close> at all.
\<close>

theorem empty_or_hinted_group_not_expanded:
  "\<not> expandable (TreeGroup_constructor [] [])
   \<and> \<not> TreeGroup_expanded (TreeGroup_constructor [] [])
   \<and> \<not> expandable (TreeGroup_constructor [(''expanded'', ''false'')] [leaf ''b1'' ''B1''])
   \<and> \<not> TreeGroup_expanded (TreeGroup_constructor [(''expanded'', ''false'')] [leaf ''b1'' ''B1''])
   \<and> map_of (TreeGroup_attributes (TreeGroup_constructor [(''expanded'', ''false'')] [leaf ''b1'' ''B1'']))
        ''aria-expanded'' = None"
  by code_simp

text \<open>
  C7. Expandability invariant: a TreeGroup is expandable exactly when it has at least two
  items, that is, when at least two of the children handed to its constructor are
  TreeItems; and for a TreeGroup that is not expandable, \<open>toggle\<close>, \<open>expand\<close> and
  \<open>collapse\<close> leave the value that the getter \<open>expanded\<close> reports unchanged.
\<close>

theorem TreeGroup_expandability:
  "expandable (TreeGroup_constructor ps cs) = (2 \<le> length (filter is_TreeItem cs))
   \<and> (group_at (doc w) this = Some g \<and> \<not> expandable g \<longrightarrow>
        expanded_at (TreeGroup_toggle w this) this = Some (TreeGroup_expanded g)
      \<and> expanded_at (TreeGroup_expand w this) this = Some (TreeGroup_expanded g)
      \<and> expanded_at (TreeGroup_collapse w this) this = Some (TreeGroup_expanded g))"
proof (intro conjI impI)
  show "expandable (TreeGroup_constructor ps cs) = (2 \<le> length (filter is_TreeItem cs))"
    by (rule expandable_constructor)
next
  assume a: "group_at (doc w) this = Some g \<and> \<not> expandable g"
  then have same: "TreeGroup_toggle w this = w" "TreeGroup_expand w this = w"
      "TreeGroup_collapse w this = w"
    using toggle_nonexp [of w this g] by simp_all
  from a have e: "expanded_at w this = Some (TreeGroup_expanded g)"
    by (simp add: expanded_at_def)
  show "expanded_at (TreeGroup_toggle w this) this = Some (TreeGroup_expanded g)"
    by (simp only: same e)
  show "expanded_at (TreeGroup_expand w this) this = Some (TreeGroup_expanded g)"
    by (simp only: same e)
  show "expanded_at (TreeGroup_collapse w this) this = Some (TreeGroup_expanded g)"
    by (simp only: same e)
qed

theorem TreeGroup_expandability_witness:
  "expandable (TreeGroup_constructor [] [leaf ''a'' ''A'', leaf ''b'' ''B''])
   \<and> \<not> expandable (TreeGroup_constructor [] [leaf ''a'' ''A'', HostEl ''li'' [] []])
   \<and> group_at (doc (focused_on ti1)) tg1_ti1_tg1_ti2_group = Some single_item_group
   \<and> \<not> expandable single_item_group
   \<and> expanded_at (TreeGroup_toggle (focused_on ti1) tg1_ti1_tg1_ti2_group) tg1_ti1_tg1_ti2_group = Some True
   \<and> expanded_at (TreeGroup_expand (focused_on ti1) tg1_ti1_tg1_ti2_group) tg1_ti1_tg1_ti2_group = Some True
   \<and> expanded_at (TreeGroup_collapse (focused_on ti1) tg1_ti1_tg1_ti2_group) tg1_ti1_tg1_ti2_group = Some True"
proof -
  have h1: "group_at (doc (focused_on ti1)) tg1_ti1_tg1_ti2_group = Some single_item_group"
    by code_simp
  have h2: "\<not> expandable single_item_group" by code_simp
  have h3: "TreeGroup_expanded single_item_group = True" by code_simp
  have c1: "(2::nat) \<le> length (filter is_TreeItem [leaf ''a'' ''A'', leaf ''b'' ''B''])" by code_simp
  have c2: "\<not> (2::nat) \<le> length (filter is_TreeItem [leaf ''a'' ''A'', HostEl ''li'' [] []])" by code_simp
  note t1 = TreeGroup_expandability [of "[]" "[leaf ''a'' ''A'', leaf ''b'' ''B'']" "focused_on ti1"
      tg1_ti1_tg1_ti2_group single_item_group]
  note t2 = TreeGroup_expandability [of "[]" "[leaf ''a'' ''A'', HostEl ''li'' [] []]" "focused_on ti1"
      tg1_ti1_tg1_ti2_group single_item_group]
  show ?thesis using t1 t2 h1 h2 h3 c1 c2 by simp
qed

text \<open>
  C8. Round trip: for an expandable TreeGroup in any expansion state, two toggles in
  succession restore the value that the getter \<open>expanded\<close> reports.
\<close>

theorem TreeGroup_toggle_twice:
  "group_at (doc w) this = Some g \<Longrightarrow> expandable g \<Longrightarrow>
     expanded_at (TreeGroup_toggle (TreeGroup_toggle w this) this) this = expanded_at w this"
proof -
  assume g: "group_at (doc w) this = Some g" and e: "expandable g"
  let ?w1 = "TreeGroup_toggle w this"
  from toggle_exp [OF g e] obtain g1 where
    g1: "group_at (doc ?w1) this = Some g1" and e1: "expandable g1"
    and x1: "TreeGroup_expanded g1 = (\<not> TreeGroup_expanded g)"
    by (auto simp: expanded_at_def)
  from toggle_exp [OF g1 e1]
  have "expanded_at (TreeGroup_toggle ?w1 this) this = Some (\<not> TreeGroup_expanded g1)"
    by simp
  with x1 g show ?thesis by (simp add: expanded_at_def)
qed

theorem TreeGroup_toggle_twice_witness:
  "group_at (doc (focused_on ti1)) ti1_group = Some ti1_group_instance
   \<and> expandable ti1_group_instance
   \<and> expanded_at (focused_on ti1) ti1_group = Some True
   \<and> expanded_at (TreeGroup_toggle (focused_on ti1) ti1_group) ti1_group = Some False
   \<and> expanded_at (TreeGroup_toggle (TreeGroup_toggle (focused_on ti1) ti1_group) ti1_group) ti1_group
       = Some True"
proof -
  have h1: "group_at (doc (focused_on ti1)) ti1_group = Some ti1_group_instance" by code_simp
  have h2: "expandable ti1_group_instance" by code_simp
  have h3: "expanded_at (focused_on ti1) ti1_group = Some True" by code_simp
  have h4: "expanded_at (TreeGroup_toggle (focused_on ti1) ti1_group) ti1_group = Some False"
    by code_simp
  show ?thesis using TreeGroup_toggle_twice [OF h1 h2] h1 h2 h3 h4 by simp
qed

subsection \<open>Menu and tree at their boundaries\<close>

text \<open>
  C9. In a menu with at least one item, \<open>next\<close> (ArrowDown) with the focus inside the
  last item moves the focus to the first item, and \<open>prev\<close> (ArrowUp) with the focus
  inside the first item moves it to the last item; the focus lands on the first link or
  button inside that item, which the item of a menu holds. (SubMenu has the same \<open>next\<close>,
  \<open>prev\<close>, \<open>select\<close>, \<open>items\<close> and \<open>activeIndex\<close>, word for word.) The tree does no such
  thing: ArrowDown on an item that is the last of its siblings, and ArrowUp on an item
  that is the first of its siblings, never move the focus to a sibling of that item.
\<close>

theorem menu_wraps_tree_does_not:
  "(Menu_items (doc w) i \<noteq> [] \<and> contains (last (Menu_items (doc w) i)) (activeElement w)
      \<and> querySelectorAll (doc w) (hd (Menu_items (doc w) i)) [''a'', ''button''] = t # ts
     \<longrightarrow> Menu_next w i = Inr (w\<lparr>activeElement := t\<rparr>))
   \<and> (Menu_items (doc w) i \<noteq> [] \<and> contains (hd (Menu_items (doc w) i)) (activeElement w)
      \<and> querySelectorAll (doc w) (last (Menu_items (doc w) i)) [''a'', ''button''] = t # ts
     \<longrightarrow> Menu_prev w i = Inr (w\<lparr>activeElement := t\<rparr>))
   \<and> (p \<noteq> [] \<and> nextSibling (doc w) p = None
     \<longrightarrow> activeElement (final (TreeItem_onKeyDown ''ArrowDown'' w p)) = activeElement w
        \<or> (\<forall>j. activeElement (final (TreeItem_onKeyDown ''ArrowDown'' w p)) \<noteq> butlast p @ [j]))
   \<and> (p \<noteq> [] \<and> previousSibling p = None
     \<longrightarrow> activeElement (final (TreeItem_onKeyDown ''ArrowUp'' w p)) = activeElement w
        \<or> (\<forall>j. activeElement (final (TreeItem_onKeyDown ''ArrowUp'' w p)) \<noteq> butlast p @ [j]))"
proof (intro conjI impI)
  assume "Menu_items (doc w) i \<noteq> [] \<and> contains (last (Menu_items (doc w) i)) (activeElement w)
      \<and> querySelectorAll (doc w) (hd (Menu_items (doc w) i)) [''a'', ''button''] = t # ts"
  then show "Menu_next w i = Inr (w\<lparr>activeElement := t\<rparr>)"
    by (simp add: Menu_next_at_last)
next
  assume "Menu_items (doc w) i \<noteq> [] \<and> contains (hd (Menu_items (doc w) i)) (activeElement w)
      \<and> querySelectorAll (doc w) (last (Menu_items (doc w) i)) [''a'', ''button''] = t # ts"
  then show "Menu_prev w i = Inr (w\<lparr>activeElement := t\<rparr>)"
    by (simp add: Menu_prev_at_first)
next
  assume a: "p \<noteq> [] \<and> nextSibling (doc w) p = None"
  then have l: "\<And>j. length (butlast p @ [j]) = length p" by (cases p) simp_all
  from a next_at_last_sibling [of w p] l
  show "activeElement (final (TreeItem_onKeyDown ''ArrowDown'' w p)) = activeElement w
        \<or> (\<forall>j. activeElement (final (TreeItem_onKeyDown ''ArrowDown'' w p)) \<noteq> butlast p @ [j])"
    by (auto simp: TreeItem_keys)
next
  assume a: "p \<noteq> [] \<and> previousSibling p = None"
  then have l: "\<And>j. length (butlast p @ [j]) = length p" by (cases p) simp_all
  from a previous_at_first_sibling [of p w] l
  show "activeElement (final (TreeItem_onKeyDown ''ArrowUp'' w p)) = activeElement w
        \<or> (\<forall>j. activeElement (final (TreeItem_onKeyDown ''ArrowUp'' w p)) \<noteq> butlast p @ [j])"
    by (auto simp: TreeItem_keys)
qed

theorem menu_wraps_tree_does_not_witness:
  "Menu_items menu_doc ''spacebears'' = [[1, 0], [1, 1], [1, 2]]
   \<and> contains [1, 2] [1, 2, 0]
   \<and> querySelectorAll menu_doc [1, 0] [''a'', ''button''] = [[1, 0, 0]]
   \<and> Menu_next (menu_focused_on [1, 2, 0]) ''spacebears'' = Inr (menu_focused_on [1, 0, 0])
   \<and> contains [1, 0] [1, 0, 0]
   \<and> querySelectorAll menu_doc [1, 2] [''a'', ''button''] = [[1, 2, 0]]
   \<and> Menu_prev (menu_focused_on [1, 0, 0]) ''spacebears'' = Inr (menu_focused_on [1, 2, 0])
   \<and> nextSibling test_doc tg1_ti4 = None
   \<and> activeElement (final (TreeItem_onKeyDown ''ArrowDown'' (focused_on tg1_ti4) tg1_ti4)) = ti2
   \<and> activeElement (final (TreeItem_onKeyDown ''ArrowDown'' (focused_on tg1_ti4) tg1_ti4)) \<noteq> tg1_ti1
   \<and> previousSibling tg1_ti1 = None
   \<and> activeElement (final (TreeItem_onKeyDown ''ArrowUp'' (focused_on tg1_ti1) tg1_ti1)) = ti1_group
   \<and> activeElement (final (TreeItem_onKeyDown ''ArrowUp'' (focused_on tg1_ti1) tg1_ti1)) \<noteq> tg1_ti4"
proof -
  have m: "Menu_items menu_doc ''spacebears'' = [[1, 0], [1, 1], [1, 2]]" by code_simp
  have a1: "contains [1, 2] [1, 2, 0]" by code_simp
  have a2: "querySelectorAll menu_doc [1, 0] [''a'', ''button''] = [[1, 0, 0]]" by code_simp
  have b1: "contains [1, 0] [1, 0, 0]" by code_simp
  have b2: "querySelectorAll menu_doc [1, 2] [''a'', ''button''] = [[1, 2, 0]]" by code_simp
  have c1: "nextSibling test_doc tg1_ti4 = None" by code_simp
  have c2: "activeElement (final (TreeItem_onKeyDown ''ArrowDown'' (focused_on tg1_ti4) tg1_ti4)) = ti2"
    by code_simp
  have c3: "tg1_ti4 \<noteq> []" "ti2 \<noteq> tg1_ti4" "butlast tg1_ti4 @ [0] = tg1_ti1" by code_simp+
  have d1: "previousSibling tg1_ti1 = None" by code_simp
  have d2: "activeElement (final (TreeItem_onKeyDown ''ArrowUp'' (focused_on tg1_ti1) tg1_ti1)) = ti1_group"
    by code_simp
  have d3: "tg1_ti1 \<noteq> []" "ti1_group \<noteq> tg1_ti1" "butlast tg1_ti1 @ [3] = tg1_ti4" by code_simp+
  note t1 = menu_wraps_tree_does_not [of "menu_focused_on [1, 2, 0]" "''spacebears''" "[1, 0, 0]" "[]"
      tg1_ti4]
  note t2 = menu_wraps_tree_does_not [of "menu_focused_on [1, 0, 0]" "''spacebears''" "[1, 2, 0]" "[]"
      tg1_ti1]
  note t3 = menu_wraps_tree_does_not [of "focused_on tg1_ti4" "''spacebears''" "[]" "[]" tg1_ti4]
  note t4 = menu_wraps_tree_does_not [of "focused_on tg1_ti1" "''spacebears''" "[]" "[]" tg1_ti1]
  have r1: "Menu_next (menu_focused_on [1, 2, 0]) ''spacebears'' = Inr (menu_focused_on [1, 0, 0])"
    using t1 m a1 a2 by (simp add: menu_focused_on_def)
  have r2: "Menu_prev (menu_focused_on [1, 0, 0]) ''spacebears'' = Inr (menu_focused_on [1, 2, 0])"
    using t2 m b1 b2 by (simp add: menu_focused_on_def)
  from t3 c1 c3(1) have "activeElement (final (TreeItem_onKeyDown ''ArrowDown'' (focused_on tg1_ti4) tg1_ti4))
        = activeElement (focused_on tg1_ti4)
      \<or> (\<forall>j. activeElement (final (TreeItem_onKeyDown ''ArrowDown'' (focused_on tg1_ti4) tg1_ti4))
            \<noteq> butlast tg1_ti4 @ [j])"
    by (simp add: doc_focused_on)
  with c2 c3 have r3: "activeElement (final (TreeItem_onKeyDown ''ArrowDown'' (focused_on tg1_ti4) tg1_ti4))
      \<noteq> tg1_ti1"
    by (metis focused_on_def world.select_convs(2))
  from t4 d1 d3(1) have "activeElement (final (TreeItem_onKeyDown ''ArrowUp'' (focused_on tg1_ti1) tg1_ti1))
        = activeElement (focused_on tg1_ti1)
      \<or> (\<forall>j. activeElement (final (TreeItem_onKeyDown ''ArrowUp'' (focused_on tg1_ti1) tg1_ti1))
            \<noteq> butlast tg1_ti1 @ [j])"
    by simp
  with d2 d3 have r4: "activeElement (final (TreeItem_onKeyDown ''ArrowUp'' (focused_on tg1_ti1) tg1_ti1))
      \<noteq> tg1_ti4"
    by (metis focused_on_def world.select_convs(2))
  show ?thesis using m a1 a2 b1 b2 c1 c2 d1 d2 r1 r2 r3 r4 by blast
qed

subsection \<open>Construction\<close>

text \<open>
  C10, as amended. Validation is local to each TreeGroup: a TreeGroup with a direct child
  that is not a TreeItem sets \<open>this.error\<close> and renders the error state (the heading
  "Unable to render tree" and the list of messages) in place of its list, mounting none
  of its children; a TreeGroup whose direct children are all TreeItems renders its list,
  whatever those items hold.
\<close>

theorem TreeGroup_validation_is_local:
  "(\<not> list_all is_TreeItem cs \<longrightarrow>
      error (TreeGroup_constructor ps cs) \<noteq> None
      \<and> mount (TreeGroupEl ps cs) =
          [Node ''h1'' (TreeGroupFailed (TreeGroup_constructor ps cs)) [text_content ''Unable to render tree''],
           Node ''pre'' (TreeGroupFailed (TreeGroup_constructor ps cs)) []])
   \<and> (list_all is_TreeItem cs \<longrightarrow>
      error (TreeGroup_constructor ps cs) = None
      \<and> mount (TreeGroupEl ps cs) =
          [Node ''ol'' (TreeGroupInst (TreeGroup_constructor ps cs)) (concat (map mount cs))])"
proof (cases "list_all is_TreeItem cs")
  case True
  then have "error (TreeGroup_constructor ps cs) = None"
    by (simp add: error_constructor)
  with True show ?thesis by (simp add: Let_def)
next
  case False
  then obtain e where "error (TreeGroup_constructor ps cs) = Some e"
    using error_constructor [of ps cs] by (cases "error (TreeGroup_constructor ps cs)") auto
  with False show ?thesis by (simp add: Let_def)
qed

theorem TreeGroup_validation_is_local_witness:
  "\<not> list_all is_TreeItem [HostEl ''li'' [] [TextEl ''Branch 1''], HostEl ''li'' [] [TextEl ''Branch 2'']]
   \<and> TreeGroup_constructor [] [HostEl ''li'' [] [TextEl ''Branch 1''], HostEl ''li'' [] [TextEl ''Branch 2'']]
        = rejected_group
   \<and> mount (TreeGroupEl [] [HostEl ''li'' [] [TextEl ''Branch 1''], HostEl ''li'' [] [TextEl ''Branch 2'']])
        = [Node ''h1'' (TreeGroupFailed rejected_group) [text_content ''Unable to render tree''],
           Node ''pre'' (TreeGroupFailed rejected_group) []]
   \<and> list_all is_TreeItem [leaf ''a'' ''A'', leaf ''b'' ''B'']
   \<and> map tagName (mount (TreeGroupEl [] [leaf ''a'' ''A'', leaf ''b'' ''B''])) = [''ol'']"
proof -
  have h1: "\<not> list_all is_TreeItem
      [HostEl ''li'' [] [TextEl ''Branch 1''], HostEl ''li'' [] [TextEl ''Branch 2'']]"
    by code_simp
  have h2: "TreeGroup_constructor []
      [HostEl ''li'' [] [TextEl ''Branch 1''], HostEl ''li'' [] [TextEl ''Branch 2'']] = rejected_group"
    by code_simp
  have h3: "list_all is_TreeItem [leaf ''a'' ''A'', leaf ''b'' ''B'']" by code_simp
  show ?thesis
    using TreeGroup_validation_is_local
        [of "[HostEl ''li'' [] [TextEl ''Branch 1''], HostEl ''li'' [] [TextEl ''Branch 2'']]" "[]"]
      TreeGroup_validation_is_local [of "[leaf ''a'' ''A'', leaf ''b'' ''B'']" "[]"] h1 h2 h3
    by simp
qed

text \<open>
  C10 as stated fails: with the malformed group one level down, construction does not
  fail as a whole. The outer group is error-free and renders its list and its item; only
  the inner group shows the error state, inside a rendered tree.
\<close>

theorem nested_malformed_child_renders_tree:
  "mount nested_malformed =
     [Node ''ol''
        (TreeGroupInst \<lparr>props = [], error = None, expandable = False, state_expanded = True\<rparr>)
        [Node ''li'' (TreeItemInst [(''id'', ''a'')])
           [Node ''span'' (NoOwner []) [text_content ''A''],
            Node ''h1'' (TreeGroupFailed rejected_group) [text_content ''Unable to render tree''],
            Node ''pre'' (TreeGroupFailed rejected_group) []]]]"
  by code_simp

end
